theory Spec2Isabelle
  imports Main "HOL-Library.Word" "HOL-Library.Multiset" "HOL-Library.List_Lexorder"
begin

section \<open>JavaScript values as the handlers see them\<close>

text \<open>
  A JavaScript string is a sequence of UTF-16 code units. String literals of the
  source are ASCII and are written \<open>js ''...''\<close>.
\<close>

type_synonym js_string = "16 word list"

definition js :: "string \<Rightarrow> js_string" where
  "js s = map (\<lambda>c. word_of_nat (of_char c)) s"

text \<open>
  What \<^verbatim>\<open>await req.json()\<close> yields when the body parses. The handlers never look
  inside a number, only at its type tag and its truthiness.
\<close>

datatype json =
    JNull
  | JBool bool
  | JNum int
  | JStr js_string
  | JArr "json list"
  | JObj "(js_string \<times> json) list"

datatype js_error = SyntaxError | TypeError | SQLiteError

datatype request_body = Unparseable | Parsed json

text \<open>\<^verbatim>\<open>req.json()\<close>: rejects with a SyntaxError when the body is not JSON.\<close>

fun req_json :: "request_body \<Rightarrow> js_error + json" where
  "req_json Unparseable = Inl SyntaxError"
| "req_json (Parsed j) = Inr j"

text \<open>
  The destructuring \<^verbatim>\<open>const { k } = v\<close> for the two keys the handlers use
  (\<^verbatim>\<open>text\<close>, \<^verbatim>\<open>completed\<close>): it throws a TypeError on \<^verbatim>\<open>null\<close>, reads the own
  property of an object (the last binding of a repeated key is the one JSON parsing
  keeps), and gives \<^verbatim>\<open>undefined\<close> (\<open>None\<close>) on arrays, strings, numbers and booleans,
  whose prototypes have neither property.
\<close>

fun get_property :: "json \<Rightarrow> js_string \<Rightarrow> js_error + json option" where
  "get_property JNull k = Inl TypeError"
| "get_property (JObj kvs) k = Inr (map_of (rev kvs) k)"
| "get_property (JBool b) k = Inr None"
| "get_property (JNum n) k = Inr None"
| "get_property (JStr s) k = Inr None"
| "get_property (JArr xs) k = Inr None"

text \<open>The operator \<^verbatim>\<open>!v\<close>: true on the falsy values.\<close>

fun falsy :: "json option \<Rightarrow> bool" where
  "falsy None = True"
| "falsy (Some JNull) = True"
| "falsy (Some (JBool b)) = (\<not> b)"
| "falsy (Some (JNum n)) = (n = 0)"
| "falsy (Some (JStr s)) = (s = [])"
| "falsy (Some (JArr xs)) = False"
| "falsy (Some (JObj kvs)) = False"

text \<open>
  \<^verbatim>\<open>String.prototype.trim\<close> removes the code units of ECMAScript's WhiteSpace and
  LineTerminator productions from both ends.
\<close>

definition is_white_space :: "16 word \<Rightarrow> bool" where
  "is_white_space c \<longleftrightarrow>
     c = 0x0009 \<or> c = 0x000A \<or> c = 0x000B \<or> c = 0x000C \<or> c = 0x000D \<or> c = 0x0020 \<or>
     c = 0x00A0 \<or> c = 0x1680 \<or> (0x2000 \<le> c \<and> c \<le> 0x200A) \<or> c = 0x2028 \<or> c = 0x2029 \<or>
     c = 0x202F \<or> c = 0x205F \<or> c = 0x3000 \<or> c = 0xFEFF"

definition trim :: "js_string \<Rightarrow> js_string" where
  "trim s = rev (dropWhile is_white_space (rev (dropWhile is_white_space s)))"

text \<open>
  A string bound to a statement is kept as UTF-8 TEXT and read back from there. A
  surrogate pair survives; a surrogate code unit without its partner (which JSON can
  carry as an escape such as \<^verbatim>\<open>"\ud800"\<close>) comes back as U+FFFD. Generated ids
  and timestamps are ASCII and path parameters are decoded from UTF-8, so the
  conversion only ever changes the \<open>text\<close> of a request body.
\<close>

definition is_high_surrogate :: "16 word \<Rightarrow> bool" where
  "is_high_surrogate c \<longleftrightarrow> 0xD800 \<le> c \<and> c \<le> 0xDBFF"

definition is_low_surrogate :: "16 word \<Rightarrow> bool" where
  "is_low_surrogate c \<longleftrightarrow> 0xDC00 \<le> c \<and> c \<le> 0xDFFF"

fun sqlite_text :: "js_string \<Rightarrow> js_string" where
  "sqlite_text [] = []"
| "sqlite_text [c] = (if is_high_surrogate c \<or> is_low_surrogate c then [0xFFFD] else [c])"
| "sqlite_text (c # d # cs) =
     (if is_high_surrogate c \<and> is_low_surrogate d then c # d # sqlite_text cs
      else if is_high_surrogate c \<or> is_low_surrogate c then 0xFFFD # sqlite_text (d # cs)
      else c # sqlite_text (d # cs))"

section \<open>The todos table\<close>

text \<open>
  \<^verbatim>\<open>CREATE TABLE todos (id TEXT PRIMARY KEY, text TEXT NOT NULL,
  completed INTEGER DEFAULT 0, createdAt TEXT NOT NULL)\<close>.
  A row is a record, the table the list of its rows in insertion order. Strings are
  stored and read back as they are; \<open>completed\<close> is the stored integer.
\<close>

record todo =
  todo_id :: js_string
  todo_text :: js_string
  completed :: int
  createdAt :: js_string

type_synonym db = "todo list"

text \<open>
  \<^verbatim>\<open>INSERT INTO todos (id, text, completed, createdAt) VALUES (?, ?, 0, ?)\<close>:
  the primary key makes the statement throw when the id is already stored; the text
  is kept as \<open>sqlite_text\<close> gives it back.
\<close>

definition insert_todo :: "js_string \<Rightarrow> js_string \<Rightarrow> js_string \<Rightarrow> db \<Rightarrow> js_error + db" where
  "insert_todo i s c t =
     (if i \<in> set (map todo_id t) then Inl SQLiteError
      else Inr (t @ [\<lparr>todo_id = i, todo_text = sqlite_text s, completed = 0, createdAt = c\<rparr>]))"

text \<open>\<^verbatim>\<open>SELECT * FROM todos WHERE id = ?\<close> with \<^verbatim>\<open>.get(id)\<close>: the row, or \<^verbatim>\<open>null\<close>.\<close>

definition select_by_id :: "js_string \<Rightarrow> db \<Rightarrow> todo option" where
  "select_by_id i t = find (\<lambda>r. todo_id r = i) t"

text \<open>\<^verbatim>\<open>UPDATE todos SET completed = ? WHERE id = ?\<close>\<close>

definition update_completed :: "int \<Rightarrow> js_string \<Rightarrow> db \<Rightarrow> db" where
  "update_completed c i t = map (\<lambda>r. if todo_id r = i then r\<lparr>completed := c\<rparr> else r) t"

text \<open>\<^verbatim>\<open>DELETE FROM todos WHERE id = ?\<close>\<close>

definition delete_by_id :: "js_string \<Rightarrow> db \<Rightarrow> db" where
  "delete_by_id i t = filter (\<lambda>r. todo_id r \<noteq> i) t"

text \<open>
  \<^verbatim>\<open>SELECT * FROM todos ORDER BY createdAt DESC\<close> with \<^verbatim>\<open>.all()\<close>: the rows with
  \<open>createdAt\<close> never increasing. SQL leaves the order of rows with equal keys open;
  SQLite's sorter hands them back in insertion order, so the query is a stable sort.
  TEXT keys compare lexicographically, code by code; on the ASCII strings
  \<^verbatim>\<open>toISOString\<close> produces (years 0000 to 9999) that is also the order of the
  instants they denote.
\<close>

definition select_all_desc :: "db \<Rightarrow> todo list" where
  "select_all_desc t = rev (sort_key createdAt (rev t))"

section \<open>Responses\<close>

datatype body = NoBody | TextBody string | JsonBody json

record response =
  status :: nat
  body :: body
  headers :: "(string \<times> string) list"

definition corsHeaders :: "(string \<times> string) list" where
  "corsHeaders =
     [(''Access-Control-Allow-Origin'', ''*''),
      (''Access-Control-Allow-Methods'', ''GET, POST, PATCH, DELETE, OPTIONS''),
      (''Access-Control-Allow-Headers'', ''Content-Type'')]"

text \<open>A row as \<^verbatim>\<open>Response.json\<close> serialises it; \<^verbatim>\<open>null\<close> when the query found none.\<close>

definition todo_json :: "todo \<Rightarrow> json" where
  "todo_json r =
     JObj [(js ''id'', JStr (todo_id r)), (js ''text'', JStr (todo_text r)),
           (js ''completed'', JNum (completed r)), (js ''createdAt'', JStr (createdAt r))]"

fun row_json :: "todo option \<Rightarrow> json" where
  "row_json None = JNull"
| "row_json (Some r) = todo_json r"

section \<open>The route handlers\<close>

text \<open>
  A handler returns a response or throws, and leaves a table behind.
  \<open>api_todos_GET\<close> takes the rows its query returned (\<open>route\<close> below runs the
  query).
\<close>

definition api_todos_GET :: "todo list \<Rightarrow> response" where
  "api_todos_GET todos =
     \<lparr>status = 200, body = JsonBody (JArr (map todo_json todos)), headers = corsHeaders\<rparr>"

text \<open>
  \<open>uuid\<close> and \<open>now\<close> are what \<^verbatim>\<open>crypto.randomUUID()\<close> and
  \<^verbatim>\<open>new Date().toISOString()\<close> return in this request.
\<close>

definition api_todos_POST ::
  "js_string \<Rightarrow> js_string \<Rightarrow> request_body \<Rightarrow> db \<Rightarrow> (js_error + response) \<times> db" where
  "api_todos_POST uuid now req t =
     (case req_json req of
        Inl e \<Rightarrow> (Inl e, t)
      | Inr j \<Rightarrow>
          (case get_property j (js ''text'') of
             Inl e \<Rightarrow> (Inl e, t)
           | Inr txt \<Rightarrow>
               (let invalid = (Inr \<lparr>status = 400, body = TextBody ''Invalid todo text'',
                                    headers = corsHeaders\<rparr>, t)
                in if falsy txt then invalid
                   else case txt of
                     Some (JStr s) \<Rightarrow>
                       if trim s = [] then invalid
                       else (case insert_todo uuid (trim s) now t of
                               Inl e \<Rightarrow> (Inl e, t)
                             | Inr t' \<Rightarrow>
                                 (Inr \<lparr>status = 201,
                                       body = JsonBody (row_json (select_by_id uuid t')),
                                       headers = corsHeaders\<rparr>, t'))
                   | _ \<Rightarrow> invalid)))"

definition api_todos_id_GET :: "js_string \<Rightarrow> db \<Rightarrow> (js_error + response) \<times> db" where
  "api_todos_id_GET i t =
     (case select_by_id i t of
        None \<Rightarrow> (Inr \<lparr>status = 404, body = TextBody ''Todo not found'', headers = corsHeaders\<rparr>, t)
      | Some r \<Rightarrow> (Inr \<lparr>status = 200, body = JsonBody (todo_json r), headers = corsHeaders\<rparr>, t))"

definition api_todos_id_PATCH ::
  "js_string \<Rightarrow> request_body \<Rightarrow> db \<Rightarrow> (js_error + response) \<times> db" where
  "api_todos_id_PATCH i req t =
     (case req_json req of
        Inl e \<Rightarrow> (Inl e, t)
      | Inr j \<Rightarrow>
          (case get_property j (js ''completed'') of
             Inl e \<Rightarrow> (Inl e, t)
           | Inr (Some (JBool b)) \<Rightarrow>
               (case select_by_id i t of
                  None \<Rightarrow>
                    (Inr \<lparr>status = 404, body = TextBody ''Todo not found'',
                          headers = corsHeaders\<rparr>, t)
                | Some r \<Rightarrow>
                    (let t' = update_completed (if b then 1 else 0) i t
                     in (Inr \<lparr>status = 200, body = JsonBody (row_json (select_by_id i t')),
                              headers = corsHeaders\<rparr>, t')))
           | Inr _ \<Rightarrow>
               (Inr \<lparr>status = 400, body = TextBody ''Invalid request'',
                     headers = corsHeaders\<rparr>, t)))"

definition api_todos_id_DELETE :: "js_string \<Rightarrow> db \<Rightarrow> (js_error + response) \<times> db" where
  "api_todos_id_DELETE i t =
     (case select_by_id i t of
        None \<Rightarrow> (Inr \<lparr>status = 404, body = TextBody ''Todo not found'', headers = corsHeaders\<rparr>, t)
      | Some r \<Rightarrow> (Inr \<lparr>status = 204, body = NoBody, headers = corsHeaders\<rparr>, delete_by_id i t))"

section \<open>The server\<close>

text \<open>
  \<^verbatim>\<open>Bun.serve\<close> hands whatever a handler throws to the \<^verbatim>\<open>error\<close> callback, which
  answers 500 without headers.
\<close>

definition error_handler :: "js_error \<Rightarrow> response" where
  "error_handler e = \<lparr>status = 500, body = TextBody ''Internal Server Error'', headers = []\<rparr>"

datatype request =
    GET_todos
  | POST_todos js_string js_string request_body
  | GET_todo js_string
  | PATCH_todo js_string request_body
  | DELETE_todo js_string

fun route :: "request \<Rightarrow> db \<Rightarrow> (js_error + response) \<times> db" where
  "route GET_todos t = (Inr (api_todos_GET (select_all_desc t)), t)"
| "route (POST_todos uuid now req) t = api_todos_POST uuid now req t"
| "route (GET_todo i) t = api_todos_id_GET i t"
| "route (PATCH_todo i req) t = api_todos_id_PATCH i req t"
| "route (DELETE_todo i) t = api_todos_id_DELETE i t"

definition serve :: "request \<Rightarrow> db \<Rightarrow> response \<times> db" where
  "serve rq t =
     (case route rq t of
        (Inl e, t') \<Rightarrow> (error_handler e, t')
      | (Inr resp, t') \<Rightarrow> (resp, t'))"

text \<open>The table after a sequence of requests.\<close>

fun run :: "request list \<Rightarrow> db \<Rightarrow> db" where
  "run [] t = t"
| "run (rq # rqs) t = run rqs (snd (serve rq t))"

section \<open>Basic facts\<close>

lemma js_simps [simp]: "js [] = []" "js (c # cs) = word_of_nat (of_char c) # js cs"
  by (simp_all add: js_def)

subsection \<open>Trimming\<close>

lemma trim_Nil [simp]: "trim [] = []"
  by (simp add: trim_def)

lemma trim_last: "trim s \<noteq> [] \<Longrightarrow> \<not> is_white_space (last (trim s))"
  by (simp add: trim_def last_rev hd_dropWhile)

lemma trim_hd: assumes "trim s \<noteq> []" shows "\<not> is_white_space (hd (trim s))"
proof -
  let ?u = "dropWhile is_white_space s"
  have "?u = [] \<Longrightarrow> trim s = []" by (simp add: trim_def del: dropWhile_eq_Nil_conv)
  with assms have u: "?u \<noteq> []" by blast
  then have hu: "\<not> is_white_space (hd ?u)" by (simp add: hd_dropWhile)
  have "trim s = rev (dropWhile is_white_space (rev ?u))" by (simp add: trim_def)
  moreover have "rev ?u = rev (tl ?u) @ [hd ?u]" using u by (metis hd_Cons_tl rev.simps(2))
  ultimately have "trim s = hd ?u # rev (dropWhile is_white_space (rev (tl ?u)))"
    using hu by (simp add: dropWhile_append3) 
  then show ?thesis using hu by simp
qed

lemma trim_fixed:
  assumes "s \<noteq> []" "\<not> is_white_space (hd s)" "\<not> is_white_space (last s)"
  shows "trim s = s"
proof -
  have "dropWhile is_white_space s = s" using assms by (cases s) auto
  moreover have "dropWhile is_white_space (rev s) = rev s"
    using assms by (cases "rev s") (auto simp: last_rev [symmetric])
  ultimately show ?thesis by (simp add: trim_def)
qed

lemma trim_idem: "trim (trim s) = trim s"
  by (cases "trim s = []") (simp_all add: trim_fixed trim_hd trim_last)

subsection \<open>Text as the table keeps it\<close>

lemma white_space_not_surrogate:
  "is_white_space c \<Longrightarrow> \<not> is_high_surrogate c \<and> \<not> is_low_surrogate c"
  unfolding is_white_space_def is_high_surrogate_def is_low_surrogate_def
  by (elim disjE conjE) (simp_all, (unat_arith)?)

lemma replacement_not_white_space: "\<not> is_white_space 0xFFFD"
  by (simp add: is_white_space_def)

lemma sqlite_text_Cons_plain:
  "\<not> is_high_surrogate c \<Longrightarrow> \<not> is_low_surrogate c \<Longrightarrow> sqlite_text (c # cs) = c # sqlite_text cs"
  by (cases cs) simp_all

lemma sqlite_text_eq_Nil [simp]: "sqlite_text s = [] \<longleftrightarrow> s = []"
  by (induction s rule: sqlite_text.induct) simp_all

lemma hd_sqlite_text:
  "s \<noteq> [] \<Longrightarrow> hd (sqlite_text s) = hd s \<or> hd (sqlite_text s) = 0xFFFD"
  by (induction s rule: sqlite_text.induct) simp_all

lemma last_sqlite_text:
  "s \<noteq> [] \<Longrightarrow> last (sqlite_text s) = last s \<or> last (sqlite_text s) = 0xFFFD"
  by (induction s rule: sqlite_text.induct) auto

lemma sqlite_text_snoc_plain:
  "\<not> is_high_surrogate c \<Longrightarrow> \<not> is_low_surrogate c \<Longrightarrow>
     sqlite_text (xs @ [c]) = sqlite_text xs @ [c]"
  by (induction xs rule: sqlite_text.induct) simp_all

lemma hd_sqlite_text_not_white:
  assumes "s \<noteq> []" and "\<not> is_white_space (hd s)"
  shows "\<not> is_white_space (hd (sqlite_text s))"
  using hd_sqlite_text [OF assms(1)] assms(2) replacement_not_white_space by auto

lemma last_sqlite_text_not_white:
  assumes "s \<noteq> []" and "\<not> is_white_space (last s)"
  shows "\<not> is_white_space (last (sqlite_text s))"
  using last_sqlite_text [OF assms(1)] assms(2) replacement_not_white_space by auto

lemma sqlite_text_dropWhile:
  "sqlite_text (dropWhile is_white_space s) = dropWhile is_white_space (sqlite_text s)"
proof (induction s)
  case Nil
  show ?case by simp
next
  case (Cons c cs)
  show ?case
  proof (cases "is_white_space c")
    case True
    then have "sqlite_text (c # cs) = c # sqlite_text cs"
      using white_space_not_surrogate [of c] by (simp add: sqlite_text_Cons_plain)
    with True Cons show ?thesis by simp
  next
    case False
    then have "\<not> is_white_space (hd (sqlite_text (c # cs)))"
      using hd_sqlite_text_not_white [of "c # cs"] by simp
    then have "dropWhile is_white_space (sqlite_text (c # cs)) = sqlite_text (c # cs)"
      by (cases "sqlite_text (c # cs)") simp_all
    with False show ?thesis by simp
  qed
qed

lemma sqlite_text_trim_end:
  "sqlite_text (rev (dropWhile is_white_space (rev s))) =
     rev (dropWhile is_white_space (rev (sqlite_text s)))"
proof (induction s rule: rev_induct)
  case Nil
  show ?case by simp
next
  case (snoc c cs)
  show ?case
  proof (cases "is_white_space c")
    case True
    then have "sqlite_text (cs @ [c]) = sqlite_text cs @ [c]"
      using white_space_not_surrogate [of c] by (simp add: sqlite_text_snoc_plain)
    with True snoc show ?thesis by simp
  next
    case False
    then have "\<not> is_white_space (last (sqlite_text (cs @ [c])))"
      using last_sqlite_text_not_white [of "cs @ [c]"] by simp
    then have "dropWhile is_white_space (rev (sqlite_text (cs @ [c]))) = rev (sqlite_text (cs @ [c]))"
      by (cases "rev (sqlite_text (cs @ [c]))") (simp_all add: last_rev [symmetric])
    with False show ?thesis by simp
  qed
qed

lemma sqlite_text_trim: "sqlite_text (trim s) = trim (sqlite_text s)"
  by (simp add: trim_def sqlite_text_trim_end sqlite_text_dropWhile)

lemma sqlite_text_trim_fixed: "sqlite_text s = s \<Longrightarrow> sqlite_text (trim s) = trim s"
  by (simp add: sqlite_text_trim)

lemma stored_text_not_blank:
  assumes "trim s \<noteq> []"
  shows "sqlite_text (trim s) \<noteq> [] \<and> \<not> list_all is_white_space (sqlite_text (trim s))"
proof -
  from assms have "\<not> is_white_space (hd (trim s))" by (rule trim_hd)
  with assms have "\<not> is_white_space (hd (sqlite_text (trim s)))"
    by (rule hd_sqlite_text_not_white)
  moreover have "sqlite_text (trim s) \<noteq> []" using assms by simp
  ultimately show ?thesis by (cases "sqlite_text (trim s)") simp_all
qed

subsection \<open>Statements on the table\<close>

lemma select_by_id_None: "select_by_id i t = None \<longleftrightarrow> i \<notin> todo_id ` set t"
  by (auto simp: select_by_id_def find_None_iff)

lemma select_by_id_Some: "select_by_id i t = Some r \<Longrightarrow> r \<in> set t \<and> todo_id r = i"
  by (auto simp: select_by_id_def find_Some_iff)

lemma select_by_id_distinct:
  "distinct (map todo_id t) \<Longrightarrow> r \<in> set t \<Longrightarrow> select_by_id (todo_id r) t = Some r"
  by (induction t) (auto simp: select_by_id_def)

lemma select_by_id_append_new:
  "i \<notin> todo_id ` set t \<Longrightarrow> todo_id r = i \<Longrightarrow> select_by_id i (t @ [r]) = Some r"
  by (induction t) (auto simp: select_by_id_def)

lemma select_by_id_update:
  "select_by_id i (update_completed c i t) = map_option (\<lambda>r. r\<lparr>completed := c\<rparr>) (select_by_id i t)"
  by (induction t) (auto simp: select_by_id_def update_completed_def)

lemma update_completed_nth:
  "k < length t \<Longrightarrow> update_completed c i t ! k =
     (if todo_id (t ! k) = i then (t ! k)\<lparr>completed := c\<rparr> else t ! k)"
  by (simp add: update_completed_def)

lemma delete_by_id_split:
  "distinct (map todo_id (xs @ r # ys)) \<Longrightarrow> delete_by_id (todo_id r) (xs @ r # ys) = xs @ ys"
proof -
  assume d: "distinct (map todo_id (xs @ r # ys))"
  have "filter (\<lambda>q. todo_id q \<noteq> todo_id r) xs = xs"
    by (rule filter_True) (use d in \<open>auto simp: image_iff\<close>)
  moreover have "filter (\<lambda>q. todo_id q \<noteq> todo_id r) ys = ys"
    by (rule filter_True) (use d in \<open>auto simp: image_iff\<close>)
  ultimately show ?thesis by (simp add: delete_by_id_def)
qed

lemma mset_select_all_desc: "mset (select_all_desc t) = mset t"
  by (simp add: select_all_desc_def)

lemma sorted_select_all_desc:
  "sorted_wrt (\<lambda>a b. createdAt b \<le> createdAt a) (select_all_desc t)"
  by (simp add: select_all_desc_def sorted_wrt_rev
      sorted_wrt_map [symmetric, of "(\<le>)" createdAt])

lemma sorted_desc_unique:
  fixes f :: "'a \<Rightarrow> 'b::linorder"
  assumes m: "mset xs = mset ys"
    and sx: "sorted_wrt (\<lambda>a b. f b \<le> f a) xs"
    and sy: "sorted_wrt (\<lambda>a b. f b < f a) ys"
  shows "xs = ys"
proof -
  have sy': "sorted_wrt (<) (rev (map f ys))"
    using sy by (simp add: sorted_wrt_rev sorted_wrt_map)
  then have dy: "distinct (map f ys)" and oy: "sorted (rev (map f ys))"
    by (simp_all add: strict_sorted_iff)
  have ox: "sorted (rev (map f xs))"
    using sx by (simp add: sorted_wrt_rev sorted_wrt_map)
  have mm: "mset (map f xs) = mset (map f ys)"
    using m by (metis mset_map)
  then have dx: "distinct (map f xs)"
    using dy by (metis mset_eq_imp_distinct_iff)
  have "set (rev (map f xs)) = set (rev (map f ys))"
    using mm by (metis mset_eq_setD set_rev)
  with ox oy dx dy have "rev (map f xs) = rev (map f ys)"
    by (intro sorted_distinct_set_unique) simp_all
  then have eq: "map f xs = map f ys" by simp
  have "set xs = set ys" using m by (rule mset_eq_setD)
  moreover have "inj_on f (set ys)" using dy by (simp add: distinct_map)
  ultimately have "inj_on f (set xs \<union> set ys)" by simp
  then show ?thesis using eq by (simp add: inj_on_map_eq_map)
qed

subsection \<open>Creating a todo\<close>

lemma serve_POST_created:
  assumes "get_property j (js ''text'') = Inr (Some (JStr s))" and "trim s \<noteq> []"
    and "uuid \<notin> todo_id ` set t"
  shows "serve (POST_todos uuid now (Parsed j)) t =
     (\<lparr>status = 201,
       body = JsonBody (todo_json \<lparr>todo_id = uuid, todo_text = sqlite_text (trim s), completed = 0, createdAt = now\<rparr>),
       headers = corsHeaders\<rparr>,
      t @ [\<lparr>todo_id = uuid, todo_text = sqlite_text (trim s), completed = 0, createdAt = now\<rparr>])"
proof -
  have "s \<noteq> []" using assms(2) by auto
  then show ?thesis using assms
    by (simp add: serve_def api_todos_POST_def insert_todo_def select_by_id_append_new)
qed

lemma serve_POST_blank:
  assumes "get_property j (js ''text'') = Inr (Some (JStr s))" and "trim s = []"
  shows "serve (POST_todos uuid now (Parsed j)) t =
     (\<lparr>status = 400, body = TextBody ''Invalid todo text'', headers = corsHeaders\<rparr>, t)"
  using assms by (simp add: serve_def api_todos_POST_def Let_def)

lemma serve_POST_collision:
  assumes "get_property j (js ''text'') = Inr (Some (JStr s))" and "trim s \<noteq> []"
    and "uuid \<in> todo_id ` set t"
  shows "serve (POST_todos uuid now (Parsed j)) t = (error_handler SQLiteError, t)"
proof -
  have "s \<noteq> []" using assms(2) by auto
  then show ?thesis using assms
    by (simp add: serve_def api_todos_POST_def insert_todo_def)
qed

lemma serve_POST_cases:
  assumes "serve (POST_todos uuid now req) t = (resp, t')"
  shows "(t' = t \<and> status resp \<noteq> 201) \<or>
     (\<exists>s. trim s \<noteq> [] \<and> uuid \<notin> todo_id ` set t \<and>
        t' = t @ [\<lparr>todo_id = uuid, todo_text = sqlite_text (trim s), completed = 0, createdAt = now\<rparr>] \<and>
        resp = \<lparr>status = 201,
          body = JsonBody (todo_json \<lparr>todo_id = uuid, todo_text = sqlite_text (trim s), completed = 0, createdAt = now\<rparr>),
          headers = corsHeaders\<rparr>)"
  using assms
  by (auto simp: serve_def api_todos_POST_def insert_todo_def error_handler_def Let_def
      select_by_id_append_new
      split: sum.splits option.splits json.splits if_splits request_body.splits)

subsection \<open>The other handlers, case by case\<close>

lemma serve_PATCH_bool:
  assumes "get_property j (js ''completed'') = Inr (Some (JBool b))"
  shows "serve (PATCH_todo i (Parsed j)) t =
     (case select_by_id i t of
        None \<Rightarrow> (\<lparr>status = 404, body = TextBody ''Todo not found'', headers = corsHeaders\<rparr>, t)
      | Some r \<Rightarrow>
          (\<lparr>status = 200, body = JsonBody (todo_json (r\<lparr>completed := if b then 1 else 0\<rparr>)),
            headers = corsHeaders\<rparr>,
           update_completed (if b then 1 else 0) i t))"
  using assms
  by (simp add: serve_def api_todos_id_PATCH_def select_by_id_update Let_def split: option.splits)

lemma serve_PATCH_not_bool:
  assumes "get_property j (js ''completed'') = Inr v" and "\<forall>b. v \<noteq> Some (JBool b)"
  shows "serve (PATCH_todo i (Parsed j)) t =
     (\<lparr>status = 400, body = TextBody ''Invalid request'', headers = corsHeaders\<rparr>, t)"
  using assms
  by (simp add: serve_def api_todos_id_PATCH_def split: option.splits json.splits)

lemma get_property_Inr: "j \<noteq> JNull \<Longrightarrow> \<exists>v. get_property j k = Inr v"
  by (cases j) simp_all

lemma serve_PATCH_throws:
  "serve (PATCH_todo i Unparseable) t = (error_handler SyntaxError, t)"
  "get_property j (js ''completed'') = Inl e \<Longrightarrow>
     serve (PATCH_todo i (Parsed j)) t = (error_handler e, t)"
  by (simp_all add: serve_def api_todos_id_PATCH_def)

lemma serve_PATCH_cases:
  assumes "serve (PATCH_todo i req) t = (resp, t')"
  shows "(t' = t \<and> status resp \<noteq> 200) \<or>
     (\<exists>j b r. req = Parsed j \<and> get_property j (js ''completed'') = Inr (Some (JBool b)) \<and>
        select_by_id i t = Some r \<and> t' = update_completed (if b then 1 else 0) i t \<and>
        resp = \<lparr>status = 200, body = JsonBody (todo_json (r\<lparr>completed := if b then 1 else 0\<rparr>)),
                 headers = corsHeaders\<rparr>)"
proof (cases req)
  case Unparseable
  then have "t' = t" and "status resp = 500"
    using assms by (auto simp: serve_PATCH_throws error_handler_def)
  then show ?thesis by simp
next
  case (Parsed j)
  show ?thesis
  proof (cases "get_property j (js ''completed'')")
    case (Inl e)
    then have "t' = t" and "status resp = 500"
      using assms Parsed by (auto simp: serve_PATCH_throws error_handler_def)
    then show ?thesis by simp
  next
    case (Inr v)
    show ?thesis
    proof (cases "\<exists>b. v = Some (JBool b)")
      case True
      then obtain b where "v = Some (JBool b)" ..
      with Inr have gb: "get_property j (js ''completed'') = Inr (Some (JBool b))" by simp
      from serve_PATCH_bool [OF this, of i t] assms Parsed
      have eq: "(resp, t') =
         (case select_by_id i t of
            None \<Rightarrow>
              (\<lparr>status = 404, body = TextBody ''Todo not found'', headers = corsHeaders\<rparr>, t)
          | Some r \<Rightarrow>
              (\<lparr>status = 200, body = JsonBody (todo_json (r\<lparr>completed := if b then 1 else 0\<rparr>)),
                headers = corsHeaders\<rparr>,
               update_completed (if b then 1 else 0) i t))"
        by simp
      show ?thesis
      proof (cases "select_by_id i t")
        case None
        with eq have "t' = t" and "status resp = 404" by simp_all
        then show ?thesis by simp
      next
        case (Some r)
        with eq have "t' = update_completed (if b then 1 else 0) i t"
          and "resp = \<lparr>status = 200,
                 body = JsonBody (todo_json (r\<lparr>completed := if b then 1 else 0\<rparr>)),
                 headers = corsHeaders\<rparr>"
          by (simp_all split del: if_split)
        with Some Parsed gb show ?thesis by blast
      qed
    next
      case False
      then have "\<forall>b. v \<noteq> Some (JBool b)" by simp
      from serve_PATCH_not_bool [OF Inr this, of i t] assms Parsed
      have "t' = t" and "status resp = 400" by auto
      then show ?thesis by simp
    qed
  qed
qed

lemma serve_GET_todo:
  "serve (GET_todo i) t =
     (case select_by_id i t of
        None \<Rightarrow> (\<lparr>status = 404, body = TextBody ''Todo not found'', headers = corsHeaders\<rparr>, t)
      | Some r \<Rightarrow> (\<lparr>status = 200, body = JsonBody (todo_json r), headers = corsHeaders\<rparr>, t))"
  by (simp add: serve_def api_todos_id_GET_def split: option.splits)

lemma serve_DELETE_todo:
  "serve (DELETE_todo i) t =
     (case select_by_id i t of
        None \<Rightarrow> (\<lparr>status = 404, body = TextBody ''Todo not found'', headers = corsHeaders\<rparr>, t)
      | Some r \<Rightarrow> (\<lparr>status = 204, body = NoBody, headers = corsHeaders\<rparr>, delete_by_id i t))"
  by (simp add: serve_def api_todos_id_DELETE_def split: option.splits)

lemma serve_GET_todos: "serve GET_todos t = (api_todos_GET (select_all_desc t), t)"
  by (simp add: serve_def)

subsection \<open>What a request can do to the table\<close>

lemma serve_table_cases:
  assumes "serve rq t = (resp, t')"
  shows "t' = t
    \<or> (\<exists>uuid now s. trim s \<noteq> [] \<and> uuid \<notin> todo_id ` set t \<and>
          t' = t @ [\<lparr>todo_id = uuid, todo_text = sqlite_text (trim s), completed = 0, createdAt = now\<rparr>])
    \<or> (\<exists>b i. t' = update_completed (if b then 1 else 0) i t)
    \<or> (\<exists>i. t' = delete_by_id i t)"
proof (cases rq)
  case GET_todos
  then show ?thesis using assms by (simp add: serve_GET_todos)
next
  case (POST_todos uuid now req)
  then show ?thesis using assms serve_POST_cases [of uuid now req t resp t'] by blast
next
  case (GET_todo i)
  then show ?thesis using assms by (auto simp: serve_GET_todo split: option.splits)
next
  case (PATCH_todo i req)
  then show ?thesis using assms serve_PATCH_cases [of i req t resp t'] by blast
next
  case (DELETE_todo i)
  then show ?thesis using assms by (auto simp: serve_DELETE_todo split: option.splits)
qed

subsection \<open>Invariants of the table\<close>

lemma run_invariant:
  assumes init: "P t"
    and step: "\<And>rq t. P t \<Longrightarrow> P (snd (serve rq t))"
  shows "P (run rqs t)"
  using init by (induction rqs arbitrary: t) (simp_all add: step)

lemma run_POST_created:
  assumes "trim s \<noteq> []" and "uuid \<notin> todo_id ` set t"
  shows "run (POST_todos uuid now (Parsed (JObj [(js ''text'', JStr s)])) # rqs) t =
     run rqs (t @ [\<lparr>todo_id = uuid, todo_text = sqlite_text (trim s), completed = 0, createdAt = now\<rparr>])"
proof -
  have "get_property (JObj [(js ''text'', JStr s)]) (js ''text'') = Inr (Some (JStr s))"
    by simp
  from serve_POST_created [OF this assms, of now] show ?thesis by simp
qed

lemma update_completed_ids [simp]: "map todo_id (update_completed c i t) = map todo_id t"
  by (induction t) (simp_all add: update_completed_def)

lemma delete_by_id_distinct:
  "distinct (map todo_id t) \<Longrightarrow> distinct (map todo_id (delete_by_id i t))"
  by (simp add: delete_by_id_def distinct_map_filter)

lemma serve_distinct:
  assumes d: "distinct (map todo_id t)"
  shows "distinct (map todo_id (snd (serve rq t)))"
proof -
  obtain resp t' where s: "serve rq t = (resp, t')" by (cases "serve rq t")
  from serve_table_cases [OF s] consider
      (same) "t' = t"
    | (ins) uuid now x where "uuid \<notin> todo_id ` set t"
        "t' = t @ [\<lparr>todo_id = uuid, todo_text = sqlite_text (trim x), completed = 0, createdAt = now\<rparr>]"
    | (upd) b i where "t' = update_completed (if b then 1 else 0) i t"
    | (del) i where "t' = delete_by_id i t"
    by blast
  then have "distinct (map todo_id t')"
  proof cases
    case same
    then show ?thesis using d by simp
  next
    case ins
    then show ?thesis using d by simp
  next
    case upd
    then show ?thesis using d by simp
  next
    case del
    then show ?thesis using d by (simp add: delete_by_id_distinct)
  qed
  then show ?thesis using s by simp
qed

lemma run_distinct: "distinct (map todo_id (run rqs []))"
  by (rule run_invariant [where P = "\<lambda>t. distinct (map todo_id t)"])
    (simp_all add: serve_distinct)

lemma serve_preserves:
  assumes inv: "\<forall>r\<in>set t. P r"
    and new: "\<And>uuid now x. trim x \<noteq> [] \<Longrightarrow>
       P \<lparr>todo_id = uuid, todo_text = sqlite_text (trim x), completed = 0, createdAt = now\<rparr>"
    and flag: "\<And>r b. P r \<Longrightarrow> P (r\<lparr>completed := if b then 1 else 0\<rparr>)"
  shows "\<forall>r\<in>set (snd (serve rq t)). P r"
proof -
  obtain resp t' where s: "serve rq t = (resp, t')" by (cases "serve rq t")
  from serve_table_cases [OF s] consider
      (same) "t' = t"
    | (ins) uuid now x where "trim x \<noteq> []"
        "t' = t @ [\<lparr>todo_id = uuid, todo_text = sqlite_text (trim x), completed = 0, createdAt = now\<rparr>]"
    | (upd) b i where "t' = update_completed (if b then 1 else 0) i t"
    | (del) i where "t' = delete_by_id i t"
    by blast
  then have "\<forall>r\<in>set t'. P r"
  proof cases
    case same
    then show ?thesis using inv by simp
  next
    case ins
    then show ?thesis using inv new by simp
  next
    case (upd b i)
    show ?thesis
    proof
      fix q assume "q \<in> set t'"
      then obtain r where r: "r \<in> set t"
        and q: "q = (if todo_id r = i then r\<lparr>completed := if b then 1 else 0\<rparr> else r)"
        unfolding upd update_completed_def by auto
      from r inv have "P r" by blast
      with flag [of r b] q show "P q" by (cases "todo_id r = i") simp_all
    qed
  next
    case del
    then show ?thesis using inv by (simp add: delete_by_id_def)
  qed
  then show ?thesis using s by simp
qed

lemma run_completed_01: "\<forall>r\<in>set (run rqs []). completed r = 0 \<or> completed r = 1"
proof (rule run_invariant [where P = "\<lambda>t. \<forall>r\<in>set t. completed r = 0 \<or> completed r = 1"])
  show "\<forall>r\<in>set []. completed r = 0 \<or> completed r = 1" by simp
next
  fix rq and t :: db assume "\<forall>r\<in>set t. completed r = 0 \<or> completed r = 1"
  then show "\<forall>r\<in>set (snd (serve rq t)). completed r = 0 \<or> completed r = 1"
    by (rule serve_preserves [where P = "\<lambda>r. completed r = 0 \<or> completed r = 1"]) simp_all
qed

subsection \<open>Evaluating a concrete request\<close>

lemmas handler_defs =
  serve_def api_todos_POST_def api_todos_id_GET_def api_todos_id_PATCH_def
  api_todos_id_DELETE_def api_todos_GET_def insert_todo_def select_by_id_def
  update_completed_def delete_by_id_def todo_json_def error_handler_def
  trim_def is_white_space_def is_high_surrogate_def is_low_surrogate_def Let_def

section \<open>The claims\<close>

text \<open>
  C1 (as amended). For every POST /api/todos request whose JSON body has a \<open>text\<close>
  field that is a string and non-empty after trimming, and for a generated id that
  is not stored yet, the response has status 201 and its JSON body is the new row:
  the generated id and createdAt, the trimmed text as the table keeps it (every
  unpaired surrogate replaced by U+FFFD; the trimmed text itself when the text has
  none), and \<open>completed\<close> as the integer 0, the stored encoding of false (not the
  JSON boolean \<open>false\<close>). The row is appended to the table.
\<close>

theorem post_valid_text_created:
  assumes "get_property j (js ''text'') = Inr (Some (JStr s))" and "trim s \<noteq> []"
    and "uuid \<notin> todo_id ` set t"
  shows "serve (POST_todos uuid now (Parsed j)) t =
     (\<lparr>status = 201,
       body = JsonBody (JObj [(js ''id'', JStr uuid), (js ''text'', JStr (sqlite_text (trim s))),
                (js ''completed'', JNum 0), (js ''createdAt'', JStr now)]),
       headers = corsHeaders\<rparr>,
      t @ [\<lparr>todo_id = uuid, todo_text = sqlite_text (trim s), completed = 0, createdAt = now\<rparr>])
    \<and> (sqlite_text s = s \<longrightarrow> sqlite_text (trim s) = trim s)"
  using serve_POST_created [OF assms] by (simp add: todo_json_def sqlite_text_trim_fixed)

theorem post_valid_text_created_witness:
  "serve (POST_todos (js ''u1'') (js ''2026-01-01T00:00:00.000Z'')
       (Parsed (JObj [(js ''text'', JStr (js ''  Buy milk  ''))]))) [] =
     (\<lparr>status = 201,
       body = JsonBody (JObj [(js ''id'', JStr (js ''u1'')), (js ''text'', JStr (js ''Buy milk'')),
                (js ''completed'', JNum 0), (js ''createdAt'', JStr (js ''2026-01-01T00:00:00.000Z''))]),
       headers = corsHeaders\<rparr>,
      [\<lparr>todo_id = js ''u1'', todo_text = js ''Buy milk'', completed = 0,
        createdAt = js ''2026-01-01T00:00:00.000Z''\<rparr>])"
  using post_valid_text_created [of "JObj [(js ''text'', JStr (js ''  Buy milk  ''))]"
      "js ''  Buy milk  ''" "js ''u1''" "[]" "js ''2026-01-01T00:00:00.000Z''"]
  by (simp add: trim_def is_white_space_def is_high_surrogate_def is_low_surrogate_def)

text \<open>
  C1 as stated fails in three ways. POST \<open>{text: "Buy milk"}\<close> on the empty table
  answers with \<open>completed: 0\<close>, which is not \<open>completed: false\<close>. POST of the text
  \<open>a\<close>, unpaired surrogate D800, \<open>b\<close> answers with the text \<open>a\<close>, U+FFFD, \<open>b\<close>, which
  is not the trimmed text. And a POST whose generated id is already stored answers
  500.
\<close>

theorem post_completed_false_counterexample:
  "body (fst (serve (POST_todos (js ''u1'') (js ''2026-01-01T00:00:00.000Z'')
           (Parsed (JObj [(js ''text'', JStr (js ''Buy milk''))]))) [])) =
     JsonBody (JObj [(js ''id'', JStr (js ''u1'')), (js ''text'', JStr (js ''Buy milk'')),
               (js ''completed'', JNum 0), (js ''createdAt'', JStr (js ''2026-01-01T00:00:00.000Z''))])
   \<and> body (fst (serve (POST_todos (js ''u1'') (js ''2026-01-01T00:00:00.000Z'')
           (Parsed (JObj [(js ''text'', JStr (js ''Buy milk''))]))) [])) \<noteq>
     JsonBody (JObj [(js ''id'', JStr (js ''u1'')), (js ''text'', JStr (js ''Buy milk'')),
               (js ''completed'', JBool False), (js ''createdAt'', JStr (js ''2026-01-01T00:00:00.000Z''))])
   \<and> trim [0x61, 0xD800, 0x62] = [0x61, 0xD800, 0x62]
   \<and> body (fst (serve (POST_todos (js ''u1'') (js ''2026-01-01T00:00:00.000Z'')
           (Parsed (JObj [(js ''text'', JStr ([0x61, 0xD800, 0x62]))]))) [])) =
     JsonBody (JObj [(js ''id'', JStr (js ''u1'')), (js ''text'', JStr ([0x61, 0xFFFD, 0x62])),
               (js ''completed'', JNum 0), (js ''createdAt'', JStr (js ''2026-01-01T00:00:00.000Z''))])
   \<and> status (fst (serve (POST_todos (js ''u1'') (js ''2026-01-01T00:00:00.000Z'')
           (Parsed (JObj [(js ''text'', JStr (js ''Buy milk''))])))
       [\<lparr>todo_id = js ''u1'', todo_text = js ''Call dentist'', completed = 0,
          createdAt = js ''2025-12-31T00:00:00.000Z''\<rparr>])) = 500"
  by (simp add: handler_defs)

text \<open>
  C2 (as amended). For every PATCH /api/todos/:id request whose body carries no
  boolean \<open>completed\<close>, the table is unchanged, whether or not the id is stored: the
  type check comes before the lookup. The response is 400 when the body parses to a
  JSON value other than \<open>null\<close> (the member is absent, a number, a string,
  \<open>null\<close>, ...); it is 500 when the body is the JSON literal \<open>null\<close> or does not
  parse, because reading the body throws before the type check.
\<close>

theorem patch_non_boolean_rejected:
  assumes "\<forall>j b. req = Parsed j \<longrightarrow> get_property j (js ''completed'') \<noteq> Inr (Some (JBool b))"
  shows "serve (PATCH_todo i req) t =
     (if req = Unparseable \<or> req = Parsed JNull
      then \<lparr>status = 500, body = TextBody ''Internal Server Error'', headers = []\<rparr>
      else \<lparr>status = 400, body = TextBody ''Invalid request'', headers = corsHeaders\<rparr>,
      t)"
proof (cases req)
  case Unparseable
  then show ?thesis by (simp add: serve_PATCH_throws error_handler_def)
next
  case (Parsed j)
  show ?thesis
  proof (cases "j = JNull")
    case True
    then have "get_property j (js ''completed'') = Inl TypeError" by simp
    then have "serve (PATCH_todo i (Parsed j)) t = (error_handler TypeError, t)"
      by (rule serve_PATCH_throws)
    with Parsed True show ?thesis by (simp add: error_handler_def)
  next
    case False
    then obtain v where v: "get_property j (js ''completed'') = Inr v"
      using get_property_Inr by blast
    with assms Parsed have "\<forall>b. v \<noteq> Some (JBool b)" by auto
    with v have "serve (PATCH_todo i (Parsed j)) t =
        (\<lparr>status = 400, body = TextBody ''Invalid request'', headers = corsHeaders\<rparr>, t)"
      by (rule serve_PATCH_not_bool)
    with Parsed False show ?thesis by simp
  qed
qed

theorem patch_non_boolean_rejected_witness:
  "serve (PATCH_todo (js ''id-a'') (Parsed (JObj [(js ''completed'', JStr (js ''true''))])))
       [\<lparr>todo_id = js ''id-a'', todo_text = js ''Buy milk'', completed = 0,
         createdAt = js ''2026-01-01T10:00:00.000Z''\<rparr>] =
     (\<lparr>status = 400, body = TextBody ''Invalid request'', headers = corsHeaders\<rparr>,
      [\<lparr>todo_id = js ''id-a'', todo_text = js ''Buy milk'', completed = 0,
         createdAt = js ''2026-01-01T10:00:00.000Z''\<rparr>])
   \<and> serve (PATCH_todo (js ''absent'') (Parsed (JObj [(js ''completed'', JNum 1)]))) [] =
     (\<lparr>status = 400, body = TextBody ''Invalid request'', headers = corsHeaders\<rparr>, [])
   \<and> serve (PATCH_todo (js ''absent'') (Parsed (JObj [(js ''completed'', JNull)]))) [] =
     (\<lparr>status = 400, body = TextBody ''Invalid request'', headers = corsHeaders\<rparr>, [])
   \<and> serve (PATCH_todo (js ''absent'') Unparseable) [] =
     (\<lparr>status = 500, body = TextBody ''Internal Server Error'', headers = []\<rparr>, [])"
  using patch_non_boolean_rejected [of "Parsed (JObj [(js ''completed'', JStr (js ''true''))])"
      "js ''id-a''"
      "[\<lparr>todo_id = js ''id-a'', todo_text = js ''Buy milk'', completed = 0,
         createdAt = js ''2026-01-01T10:00:00.000Z''\<rparr>]"]
    patch_non_boolean_rejected [of "Parsed (JObj [(js ''completed'', JNum 1)])"
      "js ''absent''" "[]"]
    patch_non_boolean_rejected [of "Parsed (JObj [(js ''completed'', JNull)])"
      "js ''absent''" "[]"]
    patch_non_boolean_rejected [of Unparseable "js ''absent''" "[]"]
  by simp

text \<open>
  C2 as stated fails: a PATCH whose body is the JSON literal \<open>null\<close>, which carries
  no boolean \<open>completed\<close>, is answered with 500, not 400, on a stored id and on an
  absent one.
\<close>

theorem patch_null_body_counterexample:
  "status (fst (serve (PATCH_todo (js ''absent'') (Parsed JNull)) [])) = 500
   \<and> status (fst (serve (PATCH_todo (js ''absent'') (Parsed JNull)) [])) \<noteq> 400
   \<and> status (fst (serve (PATCH_todo (js ''id-a'') (Parsed JNull))
       [\<lparr>todo_id = js ''id-a'', todo_text = js ''Buy milk'', completed = 0,
         createdAt = js ''2026-01-01T10:00:00.000Z''\<rparr>])) = 500"
  by (simp add: handler_defs)

text \<open>
  C3 (as amended). For every POST /api/todos request whose body is not parseable as
  JSON, \<^verbatim>\<open>req.json()\<close> throws, the server's error callback answers with status
  500 and the plain text \<open>Internal Server Error\<close>, and no row is inserted.
\<close>

theorem post_unparseable_500:
  "serve (POST_todos uuid now Unparseable) t =
     (\<lparr>status = 500, body = TextBody ''Internal Server Error'', headers = []\<rparr>, t)"
  by (simp add: serve_def api_todos_POST_def error_handler_def)

text \<open>C3 as stated fails: the status of such a request is 500, not 400.\<close>

theorem post_unparseable_counterexample:
  "status (fst (serve (POST_todos (js ''u1'') (js ''2026-01-01T00:00:00.000Z'') Unparseable) []))
     = 500
   \<and> status (fst (serve (POST_todos (js ''u1'') (js ''2026-01-01T00:00:00.000Z'') Unparseable) []))
     \<noteq> 400"
  by (simp add: serve_def api_todos_POST_def error_handler_def)

text \<open>
  C4 (as amended). GET /api/todos answers 200 with all stored todos, ordered by
  \<open>createdAt\<close> descending: the rows in the body are the table's rows, no later one
  has a greater \<open>createdAt\<close>, and after three todos A, B, C created in that order on
  the empty table at strictly increasing timestamps the body is exactly [C, B, A].
  Nothing is promised here about the relative order of rows with equal timestamps.
\<close>

theorem get_todos_newest_first:
  "serve GET_todos t =
     (\<lparr>status = 200,
       body = JsonBody (JArr (map
         (\<lambda>r. JObj [(js ''id'', JStr (todo_id r)), (js ''text'', JStr (todo_text r)),
                   (js ''completed'', JNum (completed r)),
                   (js ''createdAt'', JStr (createdAt r))])
         (select_all_desc t))),
       headers = corsHeaders\<rparr>, t)
   \<and> mset (select_all_desc t) = mset t
   \<and> sorted_wrt (\<lambda>a b. createdAt b \<le> createdAt a) (select_all_desc t)
   \<and> (\<forall>ia ib ic sa sb sc ca cb cc.
        distinct [ia, ib, ic] \<and> trim sa \<noteq> [] \<and> trim sb \<noteq> [] \<and> trim sc \<noteq> [] \<and>
        ca < cb \<and> cb < cc \<and>
        t = run [POST_todos ia ca (Parsed (JObj [(js ''text'', JStr sa)])),
                 POST_todos ib cb (Parsed (JObj [(js ''text'', JStr sb)])),
                 POST_todos ic cc (Parsed (JObj [(js ''text'', JStr sc)]))] []
        \<longrightarrow> serve GET_todos t =
            (\<lparr>status = 200,
              body = JsonBody (JArr
                [JObj [(js ''id'', JStr (ic)), (js ''text'', JStr (sqlite_text (trim sc))),
                   (js ''completed'', JNum 0), (js ''createdAt'', JStr (cc))],
                 JObj [(js ''id'', JStr (ib)), (js ''text'', JStr (sqlite_text (trim sb))),
                   (js ''completed'', JNum 0), (js ''createdAt'', JStr (cb))],
                 JObj [(js ''id'', JStr (ia)), (js ''text'', JStr (sqlite_text (trim sa))),
                   (js ''completed'', JNum 0), (js ''createdAt'', JStr (ca))]]),
              headers = corsHeaders\<rparr>, t))"
proof (intro conjI allI impI)
  show "serve GET_todos t =
     (\<lparr>status = 200,
       body = JsonBody (JArr (map
         (\<lambda>r. JObj [(js ''id'', JStr (todo_id r)), (js ''text'', JStr (todo_text r)),
                   (js ''completed'', JNum (completed r)),
                   (js ''createdAt'', JStr (createdAt r))])
         (select_all_desc t))),
       headers = corsHeaders\<rparr>, t)"
    by (simp add: serve_def api_todos_GET_def todo_json_def [abs_def])
next
  show "mset (select_all_desc t) = mset t" by (rule mset_select_all_desc)
next
  show "sorted_wrt (\<lambda>a b. createdAt b \<le> createdAt a) (select_all_desc t)"
    by (rule sorted_select_all_desc)
next
  fix ia ib ic sa sb sc ca cb cc
  let ?A = "\<lparr>todo_id = ia, todo_text = sqlite_text (trim sa), completed = 0, createdAt = ca\<rparr>"
  let ?B = "\<lparr>todo_id = ib, todo_text = sqlite_text (trim sb), completed = 0, createdAt = cb\<rparr>"
  let ?C = "\<lparr>todo_id = ic, todo_text = sqlite_text (trim sc), completed = 0, createdAt = cc\<rparr>"
  let ?PA = "POST_todos ia ca (Parsed (JObj [(js ''text'', JStr sa)]))"
  let ?PB = "POST_todos ib cb (Parsed (JObj [(js ''text'', JStr sb)]))"
  let ?PC = "POST_todos ic cc (Parsed (JObj [(js ''text'', JStr sc)]))"
  assume a: "distinct [ia, ib, ic] \<and> trim sa \<noteq> [] \<and> trim sb \<noteq> [] \<and> trim sc \<noteq> [] \<and>
        ca < cb \<and> cb < cc \<and>
        t = run [POST_todos ia ca (Parsed (JObj [(js ''text'', JStr sa)])),
                 POST_todos ib cb (Parsed (JObj [(js ''text'', JStr sb)])),
                 POST_todos ic cc (Parsed (JObj [(js ''text'', JStr sc)]))] []"
  from a have ids: "ib \<noteq> ia" "ic \<noteq> ia" "ic \<noteq> ib"
    and nonblank: "trim sa \<noteq> []" "trim sb \<noteq> []" "trim sc \<noteq> []"
    and ord: "ca < cb" "cb < cc"
    by auto
  have 1: "run [?PA, ?PB, ?PC] [] = run [?PB, ?PC] ([] @ [?A])"
    by (rule run_POST_created) (use nonblank in simp_all)
  have 2: "run [?PB, ?PC] [?A] = run [?PC] ([?A] @ [?B])"
    by (rule run_POST_created) (use nonblank ids in simp_all)
  have 3: "run [?PC] [?A, ?B] = run [] ([?A, ?B] @ [?C])"
    by (rule run_POST_created) (use nonblank ids in simp_all)
  from a have "t = run [?PA, ?PB, ?PC] []" by blast
  then have t: "t = [?A, ?B, ?C]"
    by (simp only: 1 2 3 append.simps run.simps(1))
  then have m: "mset (select_all_desc t) = mset [?C, ?B, ?A]"
    by (simp add: mset_select_all_desc)
  have "sorted_wrt (\<lambda>a b. createdAt b < createdAt a) [?C, ?B, ?A]"
    using ord by auto
  with m sorted_select_all_desc [of t] have "select_all_desc t = [?C, ?B, ?A]"
    by (rule sorted_desc_unique)
  then show "serve GET_todos t =
            (\<lparr>status = 200,
              body = JsonBody (JArr
                [JObj [(js ''id'', JStr (ic)), (js ''text'', JStr (sqlite_text (trim sc))),
                   (js ''completed'', JNum 0), (js ''createdAt'', JStr (cc))],
                 JObj [(js ''id'', JStr (ib)), (js ''text'', JStr (sqlite_text (trim sb))),
                   (js ''completed'', JNum 0), (js ''createdAt'', JStr (cb))],
                 JObj [(js ''id'', JStr (ia)), (js ''text'', JStr (sqlite_text (trim sa))),
                   (js ''completed'', JNum 0), (js ''createdAt'', JStr (ca))]]),
              headers = corsHeaders\<rparr>, t)"
    by (simp add: serve_def api_todos_GET_def todo_json_def)
qed

theorem get_todos_newest_first_witness:
  "serve GET_todos
     (run [POST_todos (js ''id-a'') (js ''2026-01-01T10:00:00.000Z'')
             (Parsed (JObj [(js ''text'', JStr (js ''Buy groceries''))])),
            POST_todos (js ''id-b'') (js ''2026-01-01T10:00:00.001Z'')
             (Parsed (JObj [(js ''text'', JStr (js ''Call dentist''))])),
            POST_todos (js ''id-c'') (js ''2026-01-01T10:00:01.000Z'')
             (Parsed (JObj [(js ''text'', JStr (js ''Review PRs''))]))] []) =
     (\<lparr>status = 200,
        body = JsonBody (JArr
          [JObj [(js ''id'', JStr (js ''id-c'')), (js ''text'', JStr (js ''Review PRs'')),
                 (js ''completed'', JNum 0), (js ''createdAt'', JStr (js ''2026-01-01T10:00:01.000Z''))],
           JObj [(js ''id'', JStr (js ''id-b'')), (js ''text'', JStr (js ''Call dentist'')),
                 (js ''completed'', JNum 0), (js ''createdAt'', JStr (js ''2026-01-01T10:00:00.001Z''))],
           JObj [(js ''id'', JStr (js ''id-a'')), (js ''text'', JStr (js ''Buy groceries'')),
                 (js ''completed'', JNum 0), (js ''createdAt'', JStr (js ''2026-01-01T10:00:00.000Z''))]]),
        headers = corsHeaders\<rparr>,
      [\<lparr>todo_id = js ''id-a'', todo_text = js ''Buy groceries'', completed = 0,
         createdAt = js ''2026-01-01T10:00:00.000Z''\<rparr>,
       \<lparr>todo_id = js ''id-b'', todo_text = js ''Call dentist'', completed = 0,
         createdAt = js ''2026-01-01T10:00:00.001Z''\<rparr>,
       \<lparr>todo_id = js ''id-c'', todo_text = js ''Review PRs'', completed = 0,
         createdAt = js ''2026-01-01T10:00:01.000Z''\<rparr>])"
proof -
  have e: "run [POST_todos (js ''id-a'') (js ''2026-01-01T10:00:00.000Z'')
          (Parsed (JObj [(js ''text'', JStr (js ''Buy groceries''))])),
         POST_todos (js ''id-b'') (js ''2026-01-01T10:00:00.001Z'')
          (Parsed (JObj [(js ''text'', JStr (js ''Call dentist''))])),
         POST_todos (js ''id-c'') (js ''2026-01-01T10:00:01.000Z'')
          (Parsed (JObj [(js ''text'', JStr (js ''Review PRs''))]))] [] =
      [\<lparr>todo_id = js ''id-a'', todo_text = js ''Buy groceries'', completed = 0,
         createdAt = js ''2026-01-01T10:00:00.000Z''\<rparr>,
       \<lparr>todo_id = js ''id-b'', todo_text = js ''Call dentist'', completed = 0,
         createdAt = js ''2026-01-01T10:00:00.001Z''\<rparr>,
       \<lparr>todo_id = js ''id-c'', todo_text = js ''Review PRs'', completed = 0,
         createdAt = js ''2026-01-01T10:00:01.000Z''\<rparr>]"
    by (simp add: handler_defs)
  have tr: "sqlite_text (trim (js ''Buy groceries'')) = js ''Buy groceries''"
    "sqlite_text (trim (js ''Call dentist'')) = js ''Call dentist''"
    "sqlite_text (trim (js ''Review PRs'')) = js ''Review PRs''"
    by (simp_all add: trim_def is_white_space_def is_high_surrogate_def is_low_surrogate_def)
  have "serve GET_todos
     (run [POST_todos (js ''id-a'') (js ''2026-01-01T10:00:00.000Z'')
             (Parsed (JObj [(js ''text'', JStr (js ''Buy groceries''))])),
            POST_todos (js ''id-b'') (js ''2026-01-01T10:00:00.001Z'')
             (Parsed (JObj [(js ''text'', JStr (js ''Call dentist''))])),
            POST_todos (js ''id-c'') (js ''2026-01-01T10:00:01.000Z'')
             (Parsed (JObj [(js ''text'', JStr (js ''Review PRs''))]))] []) =
     (\<lparr>status = 200,
        body = JsonBody (JArr
          [JObj [(js ''id'', JStr (js ''id-c'')), (js ''text'', JStr (sqlite_text (trim (js ''Review PRs'')))),
                 (js ''completed'', JNum 0), (js ''createdAt'', JStr (js ''2026-01-01T10:00:01.000Z''))],
           JObj [(js ''id'', JStr (js ''id-b'')), (js ''text'', JStr (sqlite_text (trim (js ''Call dentist'')))),
                 (js ''completed'', JNum 0), (js ''createdAt'', JStr (js ''2026-01-01T10:00:00.001Z''))],
           JObj [(js ''id'', JStr (js ''id-a'')), (js ''text'', JStr (sqlite_text (trim (js ''Buy groceries'')))),
                 (js ''completed'', JNum 0), (js ''createdAt'', JStr (js ''2026-01-01T10:00:00.000Z''))]]),
        headers = corsHeaders\<rparr>,
      run [POST_todos (js ''id-a'') (js ''2026-01-01T10:00:00.000Z'')
             (Parsed (JObj [(js ''text'', JStr (js ''Buy groceries''))])),
            POST_todos (js ''id-b'') (js ''2026-01-01T10:00:00.001Z'')
             (Parsed (JObj [(js ''text'', JStr (js ''Call dentist''))])),
            POST_todos (js ''id-c'') (js ''2026-01-01T10:00:01.000Z'')
             (Parsed (JObj [(js ''text'', JStr (js ''Review PRs''))]))] [])"
    by (rule get_todos_newest_first [THEN conjunct2, THEN conjunct2, THEN conjunct2,
          rule_format])
      (simp add: trim_def is_white_space_def)
  then show ?thesis by (simp only: e tr)
qed

text \<open>
  C4 as stated fails: with three todos A, B, C created in that order at the strictly
  distinct timestamps 10:00:02, 10:00:01, 10:00:00 (a clock set back between the
  requests), GET /api/todos returns [A, B, C], not [C, B, A].
\<close>

theorem get_todos_distinct_timestamps_counterexample:
  "body (fst (serve GET_todos
     (run [POST_todos (js ''id-a'') (js ''2026-01-01T10:00:02.000Z'')
             (Parsed (JObj [(js ''text'', JStr (js ''Buy groceries''))])),
            POST_todos (js ''id-b'') (js ''2026-01-01T10:00:01.000Z'')
             (Parsed (JObj [(js ''text'', JStr (js ''Call dentist''))])),
            POST_todos (js ''id-c'') (js ''2026-01-01T10:00:00.000Z'')
             (Parsed (JObj [(js ''text'', JStr (js ''Review PRs''))]))] []))) =
     JsonBody (JArr
       [JObj [(js ''id'', JStr (js ''id-a'')), (js ''text'', JStr (js ''Buy groceries'')),
                 (js ''completed'', JNum 0), (js ''createdAt'', JStr (js ''2026-01-01T10:00:02.000Z''))],
        JObj [(js ''id'', JStr (js ''id-b'')), (js ''text'', JStr (js ''Call dentist'')),
                 (js ''completed'', JNum 0), (js ''createdAt'', JStr (js ''2026-01-01T10:00:01.000Z''))],
        JObj [(js ''id'', JStr (js ''id-c'')), (js ''text'', JStr (js ''Review PRs'')),
                 (js ''completed'', JNum 0), (js ''createdAt'', JStr (js ''2026-01-01T10:00:00.000Z''))]])
   \<and> body (fst (serve GET_todos
     (run [POST_todos (js ''id-a'') (js ''2026-01-01T10:00:02.000Z'')
             (Parsed (JObj [(js ''text'', JStr (js ''Buy groceries''))])),
            POST_todos (js ''id-b'') (js ''2026-01-01T10:00:01.000Z'')
             (Parsed (JObj [(js ''text'', JStr (js ''Call dentist''))])),
            POST_todos (js ''id-c'') (js ''2026-01-01T10:00:00.000Z'')
             (Parsed (JObj [(js ''text'', JStr (js ''Review PRs''))]))] []))) \<noteq>
     JsonBody (JArr
       [JObj [(js ''id'', JStr (js ''id-c'')), (js ''text'', JStr (js ''Review PRs'')),
                 (js ''completed'', JNum 0), (js ''createdAt'', JStr (js ''2026-01-01T10:00:00.000Z''))],
        JObj [(js ''id'', JStr (js ''id-b'')), (js ''text'', JStr (js ''Call dentist'')),
                 (js ''completed'', JNum 0), (js ''createdAt'', JStr (js ''2026-01-01T10:00:01.000Z''))],
        JObj [(js ''id'', JStr (js ''id-a'')), (js ''text'', JStr (js ''Buy groceries'')),
                 (js ''completed'', JNum 0), (js ''createdAt'', JStr (js ''2026-01-01T10:00:02.000Z''))]])"
  by (simp add: handler_defs select_all_desc_def)

text \<open>
  C5. For every stored todo and every PATCH /api/todos/:id request with a boolean
  \<open>completed\<close>, the response is 200 with the updated row, and the table changes in
  the \<open>completed\<close> field of that row only: every row keeps its id, text and
  createdAt, the targeted row's \<open>completed\<close> becomes 1 or 0 as the request says, and
  every row with another id is unchanged.
\<close>

theorem patch_changes_only_completed:
  assumes "get_property j (js ''completed'') = Inr (Some (JBool b))"
    and "i \<in> todo_id ` set t"
    and "serve (PATCH_todo i (Parsed j)) t = (resp, t')"
  shows "status resp = 200
    \<and> (\<exists>r\<in>set t. todo_id r = i \<and>
          body resp = JsonBody (todo_json (r\<lparr>completed := if b then 1 else 0\<rparr>)))
    \<and> length t' = length t
    \<and> (\<forall>k<length t.
          todo_id (t' ! k) = todo_id (t ! k) \<and> todo_text (t' ! k) = todo_text (t ! k) \<and>
          createdAt (t' ! k) = createdAt (t ! k) \<and>
          (todo_id (t ! k) = i \<longrightarrow> completed (t' ! k) = (if b then 1 else 0)) \<and>
          (todo_id (t ! k) \<noteq> i \<longrightarrow> t' ! k = t ! k))"
proof -
  from assms(2) obtain r where r: "select_by_id i t = Some r"
    by (cases "select_by_id i t") (simp_all add: select_by_id_None)
  from serve_PATCH_bool [OF assms(1), of i t] r assms(3)
  have resp: "resp = \<lparr>status = 200,
        body = JsonBody (todo_json (r\<lparr>completed := if b then 1 else 0\<rparr>)),
        headers = corsHeaders\<rparr>"
    and t': "t' = update_completed (if b then 1 else 0) i t"
    by (simp_all split del: if_split)
  from r have "r \<in> set t" "todo_id r = i" by (simp_all add: select_by_id_Some)
  with resp have "\<exists>r\<in>set t. todo_id r = i \<and>
      body resp = JsonBody (todo_json (r\<lparr>completed := if b then 1 else 0\<rparr>))"
    by (intro bexI [of _ r]) (simp_all split del: if_split)
  moreover have "status resp = 200" using resp by simp
  moreover have "length t' = length t" by (simp add: t' update_completed_def)
  moreover have "\<forall>k<length t.
          todo_id (t' ! k) = todo_id (t ! k) \<and> todo_text (t' ! k) = todo_text (t ! k) \<and>
          createdAt (t' ! k) = createdAt (t ! k) \<and>
          (todo_id (t ! k) = i \<longrightarrow> completed (t' ! k) = (if b then 1 else 0)) \<and>
          (todo_id (t ! k) \<noteq> i \<longrightarrow> t' ! k = t ! k)"
  proof (intro allI impI)
    fix k assume "k < length t"
    then have "t' ! k = (if todo_id (t ! k) = i
        then (t ! k)\<lparr>completed := if b then 1 else 0\<rparr> else t ! k)"
      by (simp only: t' update_completed_nth)
    then show "todo_id (t' ! k) = todo_id (t ! k) \<and> todo_text (t' ! k) = todo_text (t ! k) \<and>
          createdAt (t' ! k) = createdAt (t ! k) \<and>
          (todo_id (t ! k) = i \<longrightarrow> completed (t' ! k) = (if b then 1 else 0)) \<and>
          (todo_id (t ! k) \<noteq> i \<longrightarrow> t' ! k = t ! k)"
      by (cases "todo_id (t ! k) = i") simp_all
  qed
  ultimately show ?thesis by blast
qed

theorem patch_changes_only_completed_witness:
  "get_property (JObj [(js ''completed'', JBool True)]) (js ''completed'') = Inr (Some (JBool True))
   \<and> js ''id-a'' \<in> todo_id ` set [\<lparr>todo_id = js ''id-a'', todo_text = js ''Buy milk'', completed = 0,
        createdAt = js ''2026-01-01T10:00:00.000Z''\<rparr>, \<lparr>todo_id = js ''id-b'', todo_text = js ''Call dentist'', completed = 1,
        createdAt = js ''2026-01-01T11:30:00.000Z''\<rparr>]
   \<and> serve (PATCH_todo (js ''id-a'') (Parsed (JObj [(js ''completed'', JBool True)])))
       [\<lparr>todo_id = js ''id-a'', todo_text = js ''Buy milk'', completed = 0,
        createdAt = js ''2026-01-01T10:00:00.000Z''\<rparr>, \<lparr>todo_id = js ''id-b'', todo_text = js ''Call dentist'', completed = 1,
        createdAt = js ''2026-01-01T11:30:00.000Z''\<rparr>] =
     (\<lparr>status = 200, body = JsonBody (JObj [(js ''id'', JStr (js ''id-a'')), (js ''text'', JStr (js ''Buy milk'')),
         (js ''completed'', JNum 1),
         (js ''createdAt'', JStr (js ''2026-01-01T10:00:00.000Z''))]), headers = corsHeaders\<rparr>,
      [\<lparr>todo_id = js ''id-a'', todo_text = js ''Buy milk'', completed = 1,
        createdAt = js ''2026-01-01T10:00:00.000Z''\<rparr>, \<lparr>todo_id = js ''id-b'', todo_text = js ''Call dentist'', completed = 1,
        createdAt = js ''2026-01-01T11:30:00.000Z''\<rparr>])
   \<and> todo_text ([\<lparr>todo_id = js ''id-a'', todo_text = js ''Buy milk'', completed = 1,
        createdAt = js ''2026-01-01T10:00:00.000Z''\<rparr>, \<lparr>todo_id = js ''id-b'', todo_text = js ''Call dentist'', completed = 1,
        createdAt = js ''2026-01-01T11:30:00.000Z''\<rparr>] ! 0) =
     todo_text ([\<lparr>todo_id = js ''id-a'', todo_text = js ''Buy milk'', completed = 0,
        createdAt = js ''2026-01-01T10:00:00.000Z''\<rparr>, \<lparr>todo_id = js ''id-b'', todo_text = js ''Call dentist'', completed = 1,
        createdAt = js ''2026-01-01T11:30:00.000Z''\<rparr>] ! 0)
   \<and> [\<lparr>todo_id = js ''id-a'', todo_text = js ''Buy milk'', completed = 1,
        createdAt = js ''2026-01-01T10:00:00.000Z''\<rparr>, \<lparr>todo_id = js ''id-b'', todo_text = js ''Call dentist'', completed = 1,
        createdAt = js ''2026-01-01T11:30:00.000Z''\<rparr>] ! 1 =
     [\<lparr>todo_id = js ''id-a'', todo_text = js ''Buy milk'', completed = 0,
        createdAt = js ''2026-01-01T10:00:00.000Z''\<rparr>, \<lparr>todo_id = js ''id-b'', todo_text = js ''Call dentist'', completed = 1,
        createdAt = js ''2026-01-01T11:30:00.000Z''\<rparr>] ! 1"
  (is "?h1 \<and> ?h2 \<and> ?h3 \<and> ?c0 \<and> ?c1")
proof -
  have h1: ?h1 by simp
  have h2: ?h2 by simp
  have h3: ?h3 by (simp add: handler_defs)
  note c = patch_changes_only_completed [OF h1 h2 h3,
      THEN conjunct2, THEN conjunct2, THEN conjunct2, rule_format]
  have ?c0 using c [of 0] by simp
  moreover have ?c1 using c [of 1] by simp
  ultimately show ?thesis using h1 h2 h3 by blast
qed

text \<open>
  C6. On a table whose ids are unique (the primary key): DELETE /api/todos/:id for
  an absent id answers 404 and leaves the table unchanged; for a stored id it
  answers 204 and removes exactly that row, the rows before and after it staying as
  they are; and the same DELETE repeated then answers 404 and changes nothing.
\<close>

theorem delete_twice:
  assumes "distinct (map todo_id t)"
  shows "(i \<notin> todo_id ` set t \<longrightarrow>
        serve (DELETE_todo i) t =
          (\<lparr>status = 404, body = TextBody ''Todo not found'', headers = corsHeaders\<rparr>, t))
    \<and> (\<forall>xs r ys. t = xs @ r # ys \<and> todo_id r = i \<longrightarrow>
        serve (DELETE_todo i) t =
          (\<lparr>status = 204, body = NoBody, headers = corsHeaders\<rparr>, xs @ ys) \<and>
        serve (DELETE_todo i) (xs @ ys) =
          (\<lparr>status = 404, body = TextBody ''Todo not found'', headers = corsHeaders\<rparr>, xs @ ys))"
proof (intro conjI allI impI)
  assume "i \<notin> todo_id ` set t"
  then have "select_by_id i t = None" by (simp add: select_by_id_None)
  then show "serve (DELETE_todo i) t =
      (\<lparr>status = 404, body = TextBody ''Todo not found'', headers = corsHeaders\<rparr>, t)"
    by (simp add: serve_DELETE_todo)
next
  fix xs r ys assume a: "t = xs @ r # ys \<and> todo_id r = i"
  then have "r \<in> set t" by simp
  with assms a have "select_by_id i t = Some r" using select_by_id_distinct by blast
  moreover have del: "delete_by_id i t = xs @ ys"
    using assms a delete_by_id_split [of xs r ys] by simp
  ultimately show "serve (DELETE_todo i) t =
      (\<lparr>status = 204, body = NoBody, headers = corsHeaders\<rparr>, xs @ ys)"
    by (simp add: serve_DELETE_todo)
  have "i \<notin> todo_id ` set (xs @ ys)" using assms a by auto
  then have "select_by_id i (xs @ ys) = None" by (simp add: select_by_id_None)
  then show "serve (DELETE_todo i) (xs @ ys) =
      (\<lparr>status = 404, body = TextBody ''Todo not found'', headers = corsHeaders\<rparr>, xs @ ys)"
    by (simp add: serve_DELETE_todo)
qed

theorem delete_twice_witness:
  "distinct (map todo_id [\<lparr>todo_id = js ''id-a'', todo_text = js ''Buy milk'', completed = 0,
        createdAt = js ''2026-01-01T10:00:00.000Z''\<rparr>, \<lparr>todo_id = js ''id-b'', todo_text = js ''Call dentist'', completed = 1,
        createdAt = js ''2026-01-01T11:30:00.000Z''\<rparr>, \<lparr>todo_id = js ''id-c'', todo_text = js ''Review PRs'', completed = 0,
        createdAt = js ''2026-01-02T09:15:00.000Z''\<rparr>])
   \<and> serve (DELETE_todo (js ''id-b'')) [\<lparr>todo_id = js ''id-a'', todo_text = js ''Buy milk'', completed = 0,
        createdAt = js ''2026-01-01T10:00:00.000Z''\<rparr>, \<lparr>todo_id = js ''id-b'', todo_text = js ''Call dentist'', completed = 1,
        createdAt = js ''2026-01-01T11:30:00.000Z''\<rparr>, \<lparr>todo_id = js ''id-c'', todo_text = js ''Review PRs'', completed = 0,
        createdAt = js ''2026-01-02T09:15:00.000Z''\<rparr>] =
     (\<lparr>status = 204, body = NoBody, headers = corsHeaders\<rparr>,
      [\<lparr>todo_id = js ''id-a'', todo_text = js ''Buy milk'', completed = 0,
        createdAt = js ''2026-01-01T10:00:00.000Z''\<rparr>, \<lparr>todo_id = js ''id-c'', todo_text = js ''Review PRs'', completed = 0,
        createdAt = js ''2026-01-02T09:15:00.000Z''\<rparr>])
   \<and> serve (DELETE_todo (js ''id-b'')) [\<lparr>todo_id = js ''id-a'', todo_text = js ''Buy milk'', completed = 0,
        createdAt = js ''2026-01-01T10:00:00.000Z''\<rparr>, \<lparr>todo_id = js ''id-c'', todo_text = js ''Review PRs'', completed = 0,
        createdAt = js ''2026-01-02T09:15:00.000Z''\<rparr>] =
     (\<lparr>status = 404, body = TextBody ''Todo not found'', headers = corsHeaders\<rparr>,
      [\<lparr>todo_id = js ''id-a'', todo_text = js ''Buy milk'', completed = 0,
        createdAt = js ''2026-01-01T10:00:00.000Z''\<rparr>, \<lparr>todo_id = js ''id-c'', todo_text = js ''Review PRs'', completed = 0,
        createdAt = js ''2026-01-02T09:15:00.000Z''\<rparr>])"
  (is "?h \<and> ?c")
proof -
  have h: ?h by simp
  from delete_twice [OF h, of "js ''id-b''"]
  have "\<forall>xs r ys. [\<lparr>todo_id = js ''id-a'', todo_text = js ''Buy milk'', completed = 0,
        createdAt = js ''2026-01-01T10:00:00.000Z''\<rparr>, \<lparr>todo_id = js ''id-b'', todo_text = js ''Call dentist'', completed = 1,
        createdAt = js ''2026-01-01T11:30:00.000Z''\<rparr>, \<lparr>todo_id = js ''id-c'', todo_text = js ''Review PRs'', completed = 0,
        createdAt = js ''2026-01-02T09:15:00.000Z''\<rparr>] = xs @ r # ys \<and> todo_id r = js ''id-b'' \<longrightarrow>
        serve (DELETE_todo (js ''id-b'')) [\<lparr>todo_id = js ''id-a'', todo_text = js ''Buy milk'', completed = 0,
        createdAt = js ''2026-01-01T10:00:00.000Z''\<rparr>, \<lparr>todo_id = js ''id-b'', todo_text = js ''Call dentist'', completed = 1,
        createdAt = js ''2026-01-01T11:30:00.000Z''\<rparr>, \<lparr>todo_id = js ''id-c'', todo_text = js ''Review PRs'', completed = 0,
        createdAt = js ''2026-01-02T09:15:00.000Z''\<rparr>] =
          (\<lparr>status = 204, body = NoBody, headers = corsHeaders\<rparr>, xs @ ys) \<and>
        serve (DELETE_todo (js ''id-b'')) (xs @ ys) =
          (\<lparr>status = 404, body = TextBody ''Todo not found'', headers = corsHeaders\<rparr>, xs @ ys)"
    by (elim conjE)
  from this [rule_format, of "[\<lparr>todo_id = js ''id-a'', todo_text = js ''Buy milk'', completed = 0,
        createdAt = js ''2026-01-01T10:00:00.000Z''\<rparr>]" "\<lparr>todo_id = js ''id-b'', todo_text = js ''Call dentist'', completed = 1,
        createdAt = js ''2026-01-01T11:30:00.000Z''\<rparr>" "[\<lparr>todo_id = js ''id-c'', todo_text = js ''Review PRs'', completed = 0,
        createdAt = js ''2026-01-02T09:15:00.000Z''\<rparr>]"]
  have ?c by simp
  with h show ?thesis by (rule conjI)
qed



text \<open>
  C8 (as amended). Whenever POST /api/todos accepts a body whose \<open>text\<close> is the
  string \<open>s\<close> (status 201), the row it appends stores \<open>trim s\<close> as the table keeps
  text: with every unpaired surrogate replaced by U+FFFD, hence \<open>trim s\<close> itself for
  every \<open>s\<close> without unpaired surrogates. Trimming is idempotent:
  \<open>trim (trim s) = trim s\<close>. In particular both \<open>"  Buy milk  "\<close> and
  \<open>"Buy milk"\<close> are stored as \<open>"Buy milk"\<close>.
\<close>

theorem post_stores_trimmed_text:
  assumes "get_property j (js ''text'') = Inr (Some (JStr s))"
    and "serve (POST_todos uuid now (Parsed j)) t = (resp, t')"
    and "status resp = 201"
  shows "t' = t @ [\<lparr>todo_id = uuid, todo_text = sqlite_text (trim s), completed = 0,
                   createdAt = now\<rparr>]
    \<and> (sqlite_text s = s \<longrightarrow> todo_text (last t') = trim s)
    \<and> trim (trim s) = trim s
    \<and> (s = js ''  Buy milk  '' \<or> s = js ''Buy milk'' \<longrightarrow> todo_text (last t') = js ''Buy milk'')"
proof -
  have ne: "trim s \<noteq> []"
    using serve_POST_blank [OF assms(1), of uuid now t] assms(2,3) by auto
  have fresh: "uuid \<notin> todo_id ` set t"
    using serve_POST_collision [OF assms(1) ne, of uuid t now] assms(2,3)
    by (auto simp: error_handler_def)
  from serve_POST_created [OF assms(1) ne fresh, of now] assms(2)
  have t': "t' = t @ [\<lparr>todo_id = uuid, todo_text = sqlite_text (trim s), completed = 0,
                        createdAt = now\<rparr>]"
    by simp
  have last: "todo_text (last t') = sqlite_text (trim s)" by (simp add: t')
  have milk: "sqlite_text (trim (js ''  Buy milk  '')) = js ''Buy milk''"
    "sqlite_text (trim (js ''Buy milk'')) = js ''Buy milk''"
    by (simp_all add: trim_def is_white_space_def is_high_surrogate_def is_low_surrogate_def)
  show ?thesis
  proof (intro conjI impI)
    show "t' = t @ [\<lparr>todo_id = uuid, todo_text = sqlite_text (trim s), completed = 0,
                   createdAt = now\<rparr>]"
      by (rule t')
  next
    assume "sqlite_text s = s"
    then have "sqlite_text (trim s) = trim s" by (rule sqlite_text_trim_fixed)
    with last show "todo_text (last t') = trim s" by (simp only:)
  next
    show "trim (trim s) = trim s" by (rule trim_idem)
  next
    assume "s = js ''  Buy milk  '' \<or> s = js ''Buy milk''"
    then have "sqlite_text (trim s) = js ''Buy milk''"
      using milk by (elim disjE) (simp_all only:)
    with last show "todo_text (last t') = js ''Buy milk''" by (simp only:)
  qed
qed

theorem post_stores_trimmed_text_witness:
  "get_property (JObj [(js ''text'', JStr (js ''  Buy milk  ''))]) (js ''text'') =
     Inr (Some (JStr (js ''  Buy milk  '')))
   \<and> serve (POST_todos (js ''id-a'') (js ''2026-01-01T10:00:00.000Z'')
         (Parsed (JObj [(js ''text'', JStr (js ''  Buy milk  ''))]))) [] =
     (\<lparr>status = 201,
       body = JsonBody (JObj [(js ''id'', JStr (js ''id-a'')), (js ''text'', JStr (js ''Buy milk'')),
               (js ''completed'', JNum 0), (js ''createdAt'', JStr (js ''2026-01-01T10:00:00.000Z''))]),
       headers = corsHeaders\<rparr>,
      [\<lparr>todo_id = js ''id-a'', todo_text = js ''Buy milk'', completed = 0,
        createdAt = js ''2026-01-01T10:00:00.000Z''\<rparr>])
   \<and> todo_text (last [\<lparr>todo_id = js ''id-a'', todo_text = js ''Buy milk'', completed = 0,
        createdAt = js ''2026-01-01T10:00:00.000Z''\<rparr>]) = js ''Buy milk''
   \<and> trim (trim (js ''  Buy milk  '')) = trim (js ''  Buy milk  '')"
  (is "?h1 \<and> ?h2 \<and> ?c")
proof -
  have h1: ?h1 by simp
  have h2: ?h2 by (simp add: handler_defs)
  from post_stores_trimmed_text [OF h1 h2] have ?c by simp
  with h1 h2 show ?thesis by blast
qed

text \<open>
  C8 as stated fails: POST of the text \<open>a\<close>, unpaired surrogate D800, \<open>b\<close> is
  accepted, its trimmed text is the text itself, and the stored text is \<open>a\<close>,
  U+FFFD, \<open>b\<close>.
\<close>

theorem post_lone_surrogate_counterexample:
  "serve (POST_todos (js ''id-a'') (js ''2026-01-01T10:00:00.000Z'')
         (Parsed (JObj [(js ''text'', JStr ([0x61, 0xD800, 0x62]))]))) [] =
     (\<lparr>status = 201,
       body = JsonBody (JObj [(js ''id'', JStr (js ''id-a'')), (js ''text'', JStr ([0x61, 0xFFFD, 0x62])),
               (js ''completed'', JNum 0), (js ''createdAt'', JStr (js ''2026-01-01T10:00:00.000Z''))]),
       headers = corsHeaders\<rparr>,
      [\<lparr>todo_id = js ''id-a'', todo_text = [0x61, 0xFFFD, 0x62], completed = 0,
        createdAt = js ''2026-01-01T10:00:00.000Z''\<rparr>])
   \<and> trim [0x61, 0xD800, 0x62] = [0x61, 0xD800, 0x62]
   \<and> [0x61, 0xFFFD, 0x62] \<noteq> ([0x61, 0xD800, 0x62] :: js_string)"
  by (simp add: handler_defs)

text \<open>
  C9. In every table reached from the empty one by any sequence of requests to the
  five operations, every row's text is non-empty and not made of white space only.
\<close>

theorem stored_text_never_blank:
  "\<forall>r\<in>set (run rqs []). todo_text r \<noteq> [] \<and> \<not> list_all is_white_space (todo_text r)"
proof (rule run_invariant [where P = "\<lambda>t. \<forall>r\<in>set t. todo_text r \<noteq> [] \<and>
    \<not> list_all is_white_space (todo_text r)"])
  show "\<forall>r\<in>set []. todo_text r \<noteq> [] \<and> \<not> list_all is_white_space (todo_text r)" by simp
next
  fix rq and t :: db assume "\<forall>r\<in>set t. todo_text r \<noteq> [] \<and> \<not> list_all is_white_space (todo_text r)"
  then show "\<forall>r\<in>set (snd (serve rq t)). todo_text r \<noteq> [] \<and> \<not> list_all is_white_space (todo_text r)"
    by (rule serve_preserves [where P = "\<lambda>r. todo_text r \<noteq> [] \<and>
      \<not> list_all is_white_space (todo_text r)"]) (simp_all add: stored_text_not_blank)
qed

theorem stored_text_never_blank_witness:
  "run [POST_todos (js ''id-a'') (js ''2026-01-01T10:00:00.000Z'')
          (Parsed (JObj [(js ''text'', JStr (js ''  Buy milk  ''))])),
        POST_todos (js ''id-b'') (js ''2026-01-01T10:00:00.001Z'')
          (Parsed (JObj [(js ''text'', JStr (js ''   ''))])),
        PATCH_todo (js ''id-a'') (Parsed (JObj [(js ''completed'', JBool True)]))] [] =
     [\<lparr>todo_id = js ''id-a'', todo_text = js ''Buy milk'', completed = 1,
        createdAt = js ''2026-01-01T10:00:00.000Z''\<rparr>]
   \<and> js ''Buy milk'' \<noteq> [] \<and> \<not> list_all is_white_space (js ''Buy milk'')"
  (is "?e \<and> ?c")
proof -
  have e: ?e by (simp add: handler_defs)
  from stored_text_never_blank [of "[POST_todos (js ''id-a'') (js ''2026-01-01T10:00:00.000Z'')
          (Parsed (JObj [(js ''text'', JStr (js ''  Buy milk  ''))])),
        POST_todos (js ''id-b'') (js ''2026-01-01T10:00:00.001Z'')
          (Parsed (JObj [(js ''text'', JStr (js ''   ''))])),
        PATCH_todo (js ''id-a'') (Parsed (JObj [(js ''completed'', JBool True)]))]"]
  have "\<forall>r\<in>set [\<lparr>todo_id = js ''id-a'', todo_text = js ''Buy milk'', completed = 1,
        createdAt = js ''2026-01-01T10:00:00.000Z''\<rparr>]. todo_text r \<noteq> [] \<and> \<not> list_all is_white_space (todo_text r)"
    by (simp only: e)
  then have ?c by simp
  with e show ?thesis by (rule conjI)
qed

text \<open>
  C10. In every table reached from the empty one, every row's \<open>completed\<close> is the
  integer 0 or 1; and every Todo in a response on such a table carries the stored
  \<open>completed\<close> of its row as a JSON number, never as a JSON boolean:
  GET /api/todos lists the stored rows, each with its own \<open>completed\<close>;
  GET /api/todos/:id (200) returns a stored row with that id; POST (201) returns the
  row it appended, with 0; PATCH (200) returns the row as it is stored afterwards,
  with 1 or 0 as the request's boolean says.
\<close>

theorem completed_is_integer_flag:
  assumes "t = run rqs []"
  shows "(\<forall>r\<in>set t. completed r = 0 \<or> completed r = 1)
    \<and> (serve GET_todos t =
         (\<lparr>status = 200,
            body = JsonBody (JArr (map
              (\<lambda>r. JObj [(js ''id'', JStr (todo_id r)), (js ''text'', JStr (todo_text r)),
                 (js ''completed'', JNum (completed r)),
                 (js ''createdAt'', JStr (createdAt r))])
              (select_all_desc t))),
            headers = corsHeaders\<rparr>, t) \<and>
       set (select_all_desc t) = set t)
    \<and> (\<forall>i resp t'. serve (GET_todo i) t = (resp, t') \<and> status resp = 200 \<longrightarrow>
         (\<exists>r\<in>set t. todo_id r = i \<and>
            body resp = JsonBody
              (JObj [(js ''id'', JStr (todo_id r)), (js ''text'', JStr (todo_text r)),
                 (js ''completed'', JNum (completed r)),
                 (js ''createdAt'', JStr (createdAt r))])))
    \<and> (\<forall>uuid now req resp t'. serve (POST_todos uuid now req) t = (resp, t') \<and> status resp = 201 \<longrightarrow>
         (\<exists>x. t' = t @ [\<lparr>todo_id = uuid, todo_text = x, completed = 0, createdAt = now\<rparr>] \<and>
            body resp = JsonBody
              (JObj [(js ''id'', JStr uuid), (js ''text'', JStr x),
                     (js ''completed'', JNum 0), (js ''createdAt'', JStr now)])))
    \<and> (\<forall>i req resp t'. serve (PATCH_todo i req) t = (resp, t') \<and> status resp = 200 \<longrightarrow>
         (\<exists>j b. req = Parsed j \<and> get_property j (js ''completed'') = Inr (Some (JBool b)) \<and>
            (\<exists>r\<in>set t'. todo_id r = i \<and> completed r = (if b then 1 else 0) \<and>
               body resp = JsonBody
                 (JObj [(js ''id'', JStr (todo_id r)), (js ''text'', JStr (todo_text r)),
                 (js ''completed'', JNum (completed r)),
                 (js ''createdAt'', JStr (createdAt r))]))))"
proof (intro conjI allI impI)
  show "\<forall>r\<in>set t. completed r = 0 \<or> completed r = 1"
    unfolding assms by (rule run_completed_01)
next
  show "serve GET_todos t =
         (\<lparr>status = 200,
            body = JsonBody (JArr (map
              (\<lambda>r. JObj [(js ''id'', JStr (todo_id r)), (js ''text'', JStr (todo_text r)),
                 (js ''completed'', JNum (completed r)),
                 (js ''createdAt'', JStr (createdAt r))])
              (select_all_desc t))),
            headers = corsHeaders\<rparr>, t)"
    by (simp add: serve_def api_todos_GET_def todo_json_def [abs_def])
next
  show "set (select_all_desc t) = set t"
    using mset_select_all_desc [of t] by (rule mset_eq_setD)
next
  fix i resp t' assume a: "serve (GET_todo i) t = (resp, t') \<and> status resp = 200"
  show "\<exists>r\<in>set t. todo_id r = i \<and>
            body resp = JsonBody
              (JObj [(js ''id'', JStr (todo_id r)), (js ''text'', JStr (todo_text r)),
                 (js ''completed'', JNum (completed r)),
                 (js ''createdAt'', JStr (createdAt r))])"
  proof (cases "select_by_id i t")
    case None
    with a have "status resp = 404" by (auto simp: serve_GET_todo)
    with a show ?thesis by simp
  next
    case (Some r)
    then have r: "r \<in> set t" "todo_id r = i" by (simp_all add: select_by_id_Some)
    from Some a have "body resp = JsonBody (todo_json r)" by (auto simp: serve_GET_todo)
    with r show ?thesis unfolding todo_json_def by blast
  qed
next
  fix uuid now req resp t'
  assume a: "serve (POST_todos uuid now req) t = (resp, t') \<and> status resp = 201"
  then have s: "serve (POST_todos uuid now req) t = (resp, t')" and st: "status resp = 201"
    by simp_all
  from serve_POST_cases [OF s] st obtain s where
    "t' = t @ [\<lparr>todo_id = uuid, todo_text = sqlite_text (trim s), completed = 0, createdAt = now\<rparr>]"
    "resp = \<lparr>status = 201,
          body = JsonBody (todo_json \<lparr>todo_id = uuid, todo_text = sqlite_text (trim s), completed = 0, createdAt = now\<rparr>),
          headers = corsHeaders\<rparr>"
    by blast
  then have "t' = t @ [\<lparr>todo_id = uuid, todo_text = sqlite_text (trim s), completed = 0, createdAt = now\<rparr>] \<and>
      body resp = JsonBody
              (JObj [(js ''id'', JStr uuid), (js ''text'', JStr (sqlite_text (trim s))),
                     (js ''completed'', JNum 0), (js ''createdAt'', JStr now)])"
    by (simp add: todo_json_def)
  then show "\<exists>x. t' = t @ [\<lparr>todo_id = uuid, todo_text = x, completed = 0, createdAt = now\<rparr>] \<and>
            body resp = JsonBody
              (JObj [(js ''id'', JStr uuid), (js ''text'', JStr x),
                     (js ''completed'', JNum 0), (js ''createdAt'', JStr now)])"
    by (rule exI [where x = "sqlite_text (trim s)"])
next
  fix i req resp t'
  assume a: "serve (PATCH_todo i req) t = (resp, t') \<and> status resp = 200"
  then have s: "serve (PATCH_todo i req) t = (resp, t')" and st: "status resp = 200"
    by simp_all
  from serve_PATCH_cases [OF s] st obtain j b r0 where
    j: "req = Parsed j" "get_property j (js ''completed'') = Inr (Some (JBool b))"
    and r0: "select_by_id i t = Some r0"
    and t': "t' = update_completed (if b then 1 else 0) i t"
    and resp: "resp = \<lparr>status = 200,
          body = JsonBody (todo_json (r0\<lparr>completed := if b then 1 else 0\<rparr>)),
          headers = corsHeaders\<rparr>"
    by blast
  let ?r = "r0\<lparr>completed := if b then 1 else 0\<rparr>"
  from r0 have "r0 \<in> set t" "todo_id r0 = i" by (simp_all add: select_by_id_Some)
  then have "?r \<in> set t'" unfolding t' update_completed_def by force
  moreover have "todo_id ?r = i" using \<open>todo_id r0 = i\<close> by simp
  moreover have "completed ?r = (if b then 1 else 0)" by simp
  moreover have "body resp = JsonBody
                 (JObj [(js ''id'', JStr (todo_id ?r)), (js ''text'', JStr (todo_text ?r)),
                 (js ''completed'', JNum (completed ?r)),
                 (js ''createdAt'', JStr (createdAt ?r))])"
    unfolding resp todo_json_def by (simp split del: if_split)
  ultimately have "\<exists>r\<in>set t'. todo_id r = i \<and> completed r = (if b then 1 else 0) \<and>
               body resp = JsonBody
                 (JObj [(js ''id'', JStr (todo_id r)), (js ''text'', JStr (todo_text r)),
                 (js ''completed'', JNum (completed r)),
                 (js ''createdAt'', JStr (createdAt r))])"
    by (intro bexI [of _ ?r] conjI)
  with j show "\<exists>j b. req = Parsed j \<and> get_property j (js ''completed'') = Inr (Some (JBool b)) \<and>
            (\<exists>r\<in>set t'. todo_id r = i \<and> completed r = (if b then 1 else 0) \<and>
               body resp = JsonBody
                 (JObj [(js ''id'', JStr (todo_id r)), (js ''text'', JStr (todo_text r)),
                 (js ''completed'', JNum (completed r)),
                 (js ''createdAt'', JStr (createdAt r))]))"
    by blast
qed

theorem completed_is_integer_flag_witness:
  "run [POST_todos (js ''id-a'') (js ''2026-01-01T10:00:00.000Z'')
          (Parsed (JObj [(js ''text'', JStr (js ''  Buy milk  ''))])),
        PATCH_todo (js ''id-a'') (Parsed (JObj [(js ''completed'', JBool True)]))] [] =
     [\<lparr>todo_id = js ''id-a'', todo_text = js ''Buy milk'', completed = 1,
        createdAt = js ''2026-01-01T10:00:00.000Z''\<rparr>]
   \<and> serve (GET_todo (js ''id-a'')) [\<lparr>todo_id = js ''id-a'', todo_text = js ''Buy milk'', completed = 1,
        createdAt = js ''2026-01-01T10:00:00.000Z''\<rparr>] =
     (\<lparr>status = 200,
       body = JsonBody (JObj [(js ''id'', JStr (js ''id-a'')), (js ''text'', JStr (js ''Buy milk'')),
               (js ''completed'', JNum 1), (js ''createdAt'', JStr (js ''2026-01-01T10:00:00.000Z''))]),
       headers = corsHeaders\<rparr>,
      [\<lparr>todo_id = js ''id-a'', todo_text = js ''Buy milk'', completed = 1,
        createdAt = js ''2026-01-01T10:00:00.000Z''\<rparr>])
   \<and> body (fst (serve (PATCH_todo (js ''id-a'') (Parsed (JObj [(js ''completed'', JBool False)])))
       [\<lparr>todo_id = js ''id-a'', todo_text = js ''Buy milk'', completed = 1,
        createdAt = js ''2026-01-01T10:00:00.000Z''\<rparr>])) =
     JsonBody (JObj [(js ''id'', JStr (js ''id-a'')), (js ''text'', JStr (js ''Buy milk'')),
               (js ''completed'', JNum 0), (js ''createdAt'', JStr (js ''2026-01-01T10:00:00.000Z''))])"
  (is "?h \<and> ?g \<and> ?p")
proof -
  have h: ?h by (simp add: handler_defs)
  have g: ?g by (simp add: handler_defs)
  have p: "serve (PATCH_todo (js ''id-a'') (Parsed (JObj [(js ''completed'', JBool False)])))
       [\<lparr>todo_id = js ''id-a'', todo_text = js ''Buy milk'', completed = 1,
        createdAt = js ''2026-01-01T10:00:00.000Z''\<rparr>] =
     (\<lparr>status = 200,
       body = JsonBody (JObj [(js ''id'', JStr (js ''id-a'')), (js ''text'', JStr (js ''Buy milk'')),
               (js ''completed'', JNum 0), (js ''createdAt'', JStr (js ''2026-01-01T10:00:00.000Z''))]),
       headers = corsHeaders\<rparr>,
      [\<lparr>todo_id = js ''id-a'', todo_text = js ''Buy milk'', completed = 0,
        createdAt = js ''2026-01-01T10:00:00.000Z''\<rparr>])"
    by (simp add: handler_defs)
  note c = completed_is_integer_flag [OF h [symmetric]]
  from c [THEN conjunct2, THEN conjunct2, THEN conjunct1, rule_format, OF conjI, OF g]
  have "\<exists>r\<in>set [\<lparr>todo_id = js ''id-a'', todo_text = js ''Buy milk'', completed = 1,
        createdAt = js ''2026-01-01T10:00:00.000Z''\<rparr>]. todo_id r = js ''id-a'' \<and>
      body \<lparr>status = 200,
        body = JsonBody (JObj [(js ''id'', JStr (js ''id-a'')), (js ''text'', JStr (js ''Buy milk'')),
               (js ''completed'', JNum 1), (js ''createdAt'', JStr (js ''2026-01-01T10:00:00.000Z''))]),
        headers = corsHeaders\<rparr> =
      JsonBody (JObj [(js ''id'', JStr (todo_id r)), (js ''text'', JStr (todo_text r)),
                 (js ''completed'', JNum (completed r)),
                 (js ''createdAt'', JStr (createdAt r))])"
    by simp
  from c [THEN conjunct2, THEN conjunct2, THEN conjunct2, THEN conjunct2, rule_format,
      OF conjI, OF p]
  have "\<exists>j b. Parsed (JObj [(js ''completed'', JBool False)]) = Parsed j \<and>
      get_property j (js ''completed'') = Inr (Some (JBool b)) \<and>
      (\<exists>r\<in>set [\<lparr>todo_id = js ''id-a'', todo_text = js ''Buy milk'', completed = 0,
        createdAt = js ''2026-01-01T10:00:00.000Z''\<rparr>]. todo_id r = js ''id-a'' \<and> completed r = (if b then 1 else 0) \<and>
         body \<lparr>status = 200,
        body = JsonBody (JObj [(js ''id'', JStr (js ''id-a'')), (js ''text'', JStr (js ''Buy milk'')),
               (js ''completed'', JNum 0), (js ''createdAt'', JStr (js ''2026-01-01T10:00:00.000Z''))]),
        headers = corsHeaders\<rparr> =
         JsonBody (JObj [(js ''id'', JStr (todo_id r)), (js ''text'', JStr (todo_text r)),
                 (js ''completed'', JNum (completed r)),
                 (js ''createdAt'', JStr (createdAt r))]))"
    by simp
  then have ?p by (simp only: p fst_conv) simp
  with h g show ?thesis by blast
qed

end
